theory Spec2Isabelle
  imports Main "HOL-Library.List_Lexorder" "HOL-Library.Multiset"
begin

text \<open>
  The clinical-records server of \<open>index.js\<close>: the records (\<open>prontuarios\<close>) and their
  exams in a relational store, and the triage route that sends symptoms, anamnesis and
  exam summary to a language model and reads its answer. The source file holds two
  versions of the server; the model is of the later one, which has the exam routes,
  PUT and DELETE.

  Handlers are functions from the store and the request to the reply and the store
  afterwards. What lies outside the repository is a parameter: the remote model, the
  storage engine's reading of bound values, the clock.
\<close>

section \<open>Strings\<close>

text \<open>
  A JavaScript string is a sequence of UTF-16 code units; \<open>lit\<close> reads an ASCII
  literal as one. \<open>String.prototype.trim\<close> removes the WhiteSpace and LineTerminator
  code units of ECMAScript from both ends. Code units that stand as numbers below:
  9 tab, 10 line feed, 13 carriage return, 32 space, 34 double quote, 43 plus,
  44 comma, 45 hyphen, 46 dot, 47 slash, 48 to 57 the digits, 58 colon, 69 and 101 the
  letter e, 91 and 93 the brackets, 92 backslash, 95 underscore, 117 the letter u,
  123 and 125 the braces.
\<close>

type_synonym jsstring = "nat list"

definition lit :: "string \<Rightarrow> jsstring" where
  "lit s = map of_char s"

definition is_space :: "nat \<Rightarrow> bool" where
  "is_space c =
     (c = 9 \<or> c = 10 \<or> c = 11 \<or> c = 12 \<or> c = 13 \<or> c = 32 \<or> c = 160 \<or> c = 5760
      \<or> (8192 \<le> c \<and> c \<le> 8202) \<or> c = 8232 \<or> c = 8233 \<or> c = 8239 \<or> c = 8287
      \<or> c = 12288 \<or> c = 65279)"

definition trim :: "jsstring \<Rightarrow> jsstring" where
  "trim s = rev (dropWhile is_space (rev (dropWhile is_space s)))"

fun join :: "jsstring \<Rightarrow> jsstring list \<Rightarrow> jsstring" where
  "join sep [] = []"
| "join sep [x] = x"
| "join sep (x # y # ys) = x @ sep @ join sep (y # ys)"

section \<open>JSON values and \<open>JSON.parse\<close>\<close>

text \<open>
  The values \<open>JSON.parse\<close> and the body parser produce. A number is kept as the
  decimal literal it was read from: of its conversion to an IEEE-754 double only
  the test against zero is modelled (\<open>zero_literal\<close> below). An object is its members in order of first appearance; a repeated key
  keeps its place and takes the later value (that integer-like keys come first
  when an object is enumerated is not modelled).

  \<open>JSON.parse\<close> is the ECMA-404 grammar: \<open>lex\<close> splits the text into tokens
  (\<open>None\<close> is the SyntaxError), and \<open>parse_tokens\<close> runs a pushdown automaton over
  them whose stack holds the arrays and objects still open.
\<close>

datatype jsval =
    JNull
  | JBool bool
  | JNum jsstring
  | JStr jsstring
  | JArr "jsval list"
  | JObj "(jsstring \<times> jsval) list"

datatype token =
    TLBrace | TRBrace | TLBracket | TRBracket | TColon | TComma
  | TString jsstring | TNumber jsstring | TTrue | TFalse | TNull

definition hex_val :: "nat \<Rightarrow> nat option" where
  "hex_val c =
     (if 48 \<le> c \<and> c \<le> 57 then Some (c - 48)
      else if 97 \<le> c \<and> c \<le> 102 then Some (c - 87)
      else if 65 \<le> c \<and> c \<le> 70 then Some (c - 55)
      else None)"

definition hex4 :: "nat \<Rightarrow> nat \<Rightarrow> nat \<Rightarrow> nat \<Rightarrow> nat option" where
  "hex4 a b c d =
     (case (hex_val a, hex_val b, hex_val c, hex_val d) of
        (Some x, Some y, Some z, Some w) \<Rightarrow> Some (4096 * x + 256 * y + 16 * z + w)
      | _ \<Rightarrow> None)"

definition unescape :: "nat \<Rightarrow> nat option" where
  "unescape e =
     (if e = 34 \<or> e = 92 \<or> e = 47 then Some e
      else if e = 98 then Some 8
      else if e = 102 then Some 12
      else if e = 110 then Some 10
      else if e = 114 then Some 13
      else if e = 116 then Some 9
      else None)"

definition consume :: "nat \<Rightarrow> (jsstring \<times> jsstring) option \<Rightarrow> (jsstring \<times> jsstring) option" where
  "consume u r = (case r of None \<Rightarrow> None | Some (s, rest) \<Rightarrow> Some (u # s, rest))"

fun lex_string :: "jsstring \<Rightarrow> (jsstring \<times> jsstring) option" where
  "lex_string [] = None"
| "lex_string (c # cs) =
     (if c = 34 then Some ([], cs)
      else if c = 92 then
        (case cs of
           [] \<Rightarrow> None
         | e # r \<Rightarrow>
             if e = 117 then
               (case r of
                  h1 # h2 # h3 # h4 # r' \<Rightarrow>
                    (case hex4 h1 h2 h3 h4 of
                       None \<Rightarrow> None
                     | Some u \<Rightarrow> consume u (lex_string r'))
                | _ \<Rightarrow> None)
             else
               (case unescape e of
                  None \<Rightarrow> None
                | Some u \<Rightarrow> consume u (lex_string r)))
      else if c < 32 then None
      else consume c (lex_string cs))"

definition is_digit :: "nat \<Rightarrow> bool" where
  "is_digit c = (48 \<le> c \<and> c \<le> 57)"

definition lex_int :: "jsstring \<Rightarrow> (jsstring \<times> jsstring) option" where
  "lex_int cs =
     (case cs of
        [] \<Rightarrow> None
      | d # r \<Rightarrow>
          if d = 48 then Some ([48], r)
          else if 49 \<le> d \<and> d \<le> 57 then Some (d # takeWhile is_digit r, dropWhile is_digit r)
          else None)"

definition lex_frac :: "jsstring \<Rightarrow> (jsstring \<times> jsstring) option" where
  "lex_frac cs =
     (case cs of
        [] \<Rightarrow> Some ([], [])
      | d # r \<Rightarrow>
          if d = 46 then
            (if takeWhile is_digit r = [] then None
             else Some (46 # takeWhile is_digit r, dropWhile is_digit r))
          else Some ([], cs))"

definition lex_sign :: "jsstring \<Rightarrow> jsstring \<times> jsstring" where
  "lex_sign cs =
     (case cs of
        [] \<Rightarrow> ([], [])
      | s # r \<Rightarrow> if s = 43 \<or> s = 45 then ([s], r) else ([], cs))"

definition lex_exp :: "jsstring \<Rightarrow> (jsstring \<times> jsstring) option" where
  "lex_exp cs =
     (case cs of
        [] \<Rightarrow> Some ([], [])
      | e # r \<Rightarrow>
          if e = 101 \<or> e = 69 then
            (case lex_sign r of
               (sg, r') \<Rightarrow>
                 if takeWhile is_digit r' = [] then None
                 else Some (e # sg @ takeWhile is_digit r', dropWhile is_digit r'))
          else Some ([], cs))"

definition lex_minus :: "jsstring \<Rightarrow> jsstring \<times> jsstring" where
  "lex_minus cs =
     (case cs of
        [] \<Rightarrow> ([], [])
      | c # r \<Rightarrow> if c = 45 then ([45], r) else ([], cs))"

definition lex_number :: "jsstring \<Rightarrow> (jsstring \<times> jsstring) option" where
  "lex_number cs =
     (case lex_minus cs of
        (sg, r0) \<Rightarrow>
          (case lex_int r0 of
             None \<Rightarrow> None
           | Some (ip, r1) \<Rightarrow>
               (case lex_frac r1 of
                  None \<Rightarrow> None
                | Some (fp, r2) \<Rightarrow>
                    (case lex_exp r2 of
                       None \<Rightarrow> None
                     | Some (ep, r3) \<Rightarrow> Some (sg @ ip @ fp @ ep, r3)))))"

definition emit :: "token \<Rightarrow> token list option \<Rightarrow> token list option" where
  "emit t r = (case r of None \<Rightarrow> None | Some ts \<Rightarrow> Some (t # ts))"

lemma lex_string_shorter: "lex_string cs = Some (s, r) \<Longrightarrow> length r < Suc (length cs)"
proof (induction cs arbitrary: s r rule: lex_string.induct)
  case 1
  then show ?case by simp
next
  case (2 c cs)
  then show ?case
    by (fastforce simp: consume_def split: if_splits list.splits option.splits)
qed

lemma lex_int_shorter: "lex_int cs = Some (s, r) \<Longrightarrow> length r < length cs"
  by (auto simp: lex_int_def less_Suc_eq_le length_dropWhile_le split: list.splits if_splits)

lemma lex_frac_shorter: "lex_frac cs = Some (s, r) \<Longrightarrow> length r \<le> length cs"
  by (auto simp: lex_frac_def le_SucI length_dropWhile_le split: list.splits if_splits)

lemma lex_sign_shorter: "lex_sign cs = (s, r) \<Longrightarrow> length r \<le> length cs"
  by (auto simp: lex_sign_def split: list.splits if_splits)

lemma lex_exp_shorter: "lex_exp cs = Some (s, r) \<Longrightarrow> length r \<le> length cs"
proof (cases cs)
  case Nil
  assume "lex_exp cs = Some (s, r)"
  with Nil show ?thesis by (simp add: lex_exp_def)
next
  case (Cons e t)
  assume a: "lex_exp cs = Some (s, r)"
  obtain sg r' where sg: "lex_sign t = (sg, r')" by (cases "lex_sign t")
  have "length r' \<le> length t" using sg by (rule lex_sign_shorter)
  moreover have "length (dropWhile is_digit r') \<le> length r'" by (rule length_dropWhile_le)
  ultimately show ?thesis using a Cons sg
    by (auto simp: lex_exp_def split: if_splits)
qed

lemma lex_minus_shorter: "lex_minus cs = (s, r) \<Longrightarrow> length r \<le> length cs"
  by (auto simp: lex_minus_def split: list.splits if_splits)

lemma lex_number_shorter:
  assumes "lex_number cs = Some (s, r)"
  shows "length r < length cs"
proof -
  obtain sg r0 where sg: "lex_minus cs = (sg, r0)"
    by (cases "lex_minus cs")
  from assms sg obtain ip r1 fp r2 ep where
    a: "lex_int r0 = Some (ip, r1)" and b: "lex_frac r1 = Some (fp, r2)" and c: "lex_exp r2 = Some (ep, r)"
    by (auto simp: lex_number_def split: option.splits)
  from lex_int_shorter[OF a] lex_frac_shorter[OF b] lex_exp_shorter[OF c] lex_minus_shorter[OF sg]
  show ?thesis by linarith
qed

function lex :: "jsstring \<Rightarrow> token list option" where
  "lex [] = Some []"
| "lex (c # cs) =
     (if c = 32 \<or> c = 9 \<or> c = 10 \<or> c = 13 then lex cs
      else if c = 123 then emit TLBrace (lex cs)
      else if c = 125 then emit TRBrace (lex cs)
      else if c = 91 then emit TLBracket (lex cs)
      else if c = 93 then emit TRBracket (lex cs)
      else if c = 58 then emit TColon (lex cs)
      else if c = 44 then emit TComma (lex cs)
      else if c = 34 then
        (case lex_string cs of
           None \<Rightarrow> None
         | Some (s, r) \<Rightarrow> emit (TString s) (lex r))
      else if c = 45 \<or> is_digit c then
        (case lex_number (c # cs) of
           None \<Rightarrow> None
         | Some (n, r) \<Rightarrow> emit (TNumber n) (lex r))
      else if c # take 3 cs = lit ''true'' then emit TTrue (lex (drop 3 cs))
      else if c # take 4 cs = lit ''false'' then emit TFalse (lex (drop 4 cs))
      else if c # take 3 cs = lit ''null'' then emit TNull (lex (drop 3 cs))
      else None)"
  by pat_completeness auto
termination
proof (relation "measure length")
  show "wf (measure length)" by simp
qed (auto dest: lex_string_shorter lex_number_shorter)

fun set_member :: "(jsstring \<times> jsval) list \<Rightarrow> jsstring \<Rightarrow> jsval \<Rightarrow> (jsstring \<times> jsval) list" where
  "set_member [] k v = [(k, v)]"
| "set_member (p # ps) k v = (if fst p = k then (k, v) # ps else p # set_member ps k v)"

datatype frame = InArray "jsval list" | InObject "(jsstring \<times> jsval) list" jsstring

datatype pstate =
    ExpectValue "frame list"
  | ArrayStart "frame list"
  | ArrayNext "frame list" "jsval list"
  | ObjectStart "frame list"
  | ObjectKey "frame list" "(jsstring \<times> jsval) list"
  | ObjectColon "frame list" "(jsstring \<times> jsval) list" jsstring
  | ObjectNext "frame list" "(jsstring \<times> jsval) list"
  | Finished jsval

fun complete :: "jsval \<Rightarrow> frame list \<Rightarrow> pstate" where
  "complete v [] = Finished v"
| "complete v (InArray acc # stk) = ArrayNext stk (acc @ [v])"
| "complete v (InObject ps k # stk) = ObjectNext stk (set_member ps k v)"

fun start_value :: "frame list \<Rightarrow> token \<Rightarrow> pstate option" where
  "start_value stk TLBrace = Some (ObjectStart stk)"
| "start_value stk TLBracket = Some (ArrayStart stk)"
| "start_value stk (TString s) = Some (complete (JStr s) stk)"
| "start_value stk (TNumber n) = Some (complete (JNum n) stk)"
| "start_value stk TTrue = Some (complete (JBool True) stk)"
| "start_value stk TFalse = Some (complete (JBool False) stk)"
| "start_value stk TNull = Some (complete JNull stk)"
| "start_value stk _ = None"

fun pstep :: "pstate \<Rightarrow> token \<Rightarrow> pstate option" where
  "pstep (ExpectValue stk) t = start_value stk t"
| "pstep (ArrayStart stk) t =
     (if t = TRBracket then Some (complete (JArr []) stk) else start_value (InArray [] # stk) t)"
| "pstep (ArrayNext stk acc) t =
     (if t = TComma then Some (ExpectValue (InArray acc # stk))
      else if t = TRBracket then Some (complete (JArr acc) stk)
      else None)"
| "pstep (ObjectStart stk) t =
     (case t of
        TRBrace \<Rightarrow> Some (complete (JObj []) stk)
      | TString k \<Rightarrow> Some (ObjectColon stk [] k)
      | _ \<Rightarrow> None)"
| "pstep (ObjectKey stk ps) t =
     (case t of TString k \<Rightarrow> Some (ObjectColon stk ps k) | _ \<Rightarrow> None)"
| "pstep (ObjectColon stk ps k) t =
     (if t = TColon then Some (ExpectValue (InObject ps k # stk)) else None)"
| "pstep (ObjectNext stk ps) t =
     (if t = TComma then Some (ObjectKey stk ps)
      else if t = TRBrace then Some (complete (JObj ps) stk)
      else None)"
| "pstep (Finished v) t = None"

fun parse_tokens :: "pstate \<Rightarrow> token list \<Rightarrow> jsval option" where
  "parse_tokens st [] = (case st of Finished v \<Rightarrow> Some v | _ \<Rightarrow> None)"
| "parse_tokens st (t # ts) =
     (case pstep st t of None \<Rightarrow> None | Some st' \<Rightarrow> parse_tokens st' ts)"

definition JSON_parse :: "jsstring \<Rightarrow> jsval option" where
  "JSON_parse s =
     (case lex s of None \<Rightarrow> None | Some ts \<Rightarrow> parse_tokens (ExpectValue []) ts)"

section \<open>\<open>JSON.stringify\<close>\<close>

text \<open>
  \<open>quote\<close> is QuoteJSONString: the two-character escapes, \<open>\u\<close> escapes (lower-case
  hexadecimal) for the other control characters and for a surrogate without its
  partner, every other code unit as it is. \<open>stringify\<close> writes no white space.
\<close>

definition hex_digit :: "nat \<Rightarrow> nat" where
  "hex_digit d = (if d < 10 then 48 + d else 87 + d)"

definition uescape :: "nat \<Rightarrow> jsstring" where
  "uescape c =
     [92, 117, hex_digit (c div 4096 mod 16), hex_digit (c div 256 mod 16),
      hex_digit (c div 16 mod 16), hex_digit (c mod 16)]"

definition escape_unit :: "nat \<Rightarrow> jsstring" where
  "escape_unit c =
     (if c = 8 then [92, 98]
      else if c = 9 then [92, 116]
      else if c = 10 then [92, 110]
      else if c = 12 then [92, 102]
      else if c = 13 then [92, 114]
      else if c = 34 then [92, 34]
      else if c = 92 then [92, 92]
      else if c < 32 then uescape c
      else [c])"

definition is_high_surrogate :: "nat \<Rightarrow> bool" where
  "is_high_surrogate c = (55296 \<le> c \<and> c \<le> 56319)"

definition is_low_surrogate :: "nat \<Rightarrow> bool" where
  "is_low_surrogate c = (56320 \<le> c \<and> c \<le> 57343)"

fun quote_units :: "jsstring \<Rightarrow> jsstring" where
  "quote_units [] = []"
| "quote_units (c # cs) =
     (if is_high_surrogate c then
        (case cs of
           [] \<Rightarrow> uescape c
         | d # ds \<Rightarrow>
             if is_low_surrogate d then c # d # quote_units ds
             else uescape c @ quote_units cs)
      else if is_low_surrogate c then uescape c @ quote_units cs
      else escape_unit c @ quote_units cs)"

definition quote :: "jsstring \<Rightarrow> jsstring" where
  "quote s = 34 # quote_units s @ [34]"

fun stringify :: "jsval \<Rightarrow> jsstring"
  and stringify_elems :: "jsval list \<Rightarrow> jsstring"
  and stringify_members :: "(jsstring \<times> jsval) list \<Rightarrow> jsstring" where
  "stringify JNull = lit ''null''"
| "stringify (JBool b) = (if b then lit ''true'' else lit ''false'')"
| "stringify (JNum n) = n"
| "stringify (JStr s) = quote s"
| "stringify (JArr vs) = 91 # stringify_elems vs @ [93]"
| "stringify (JObj ps) = 123 # stringify_members ps @ [125]"
| "stringify_elems [] = []"
| "stringify_elems (v # vs) = stringify v @ (if vs = [] then [] else 44 # stringify_elems vs)"
| "stringify_members [] = []"
| "stringify_members ((k, v) # ps) =
     quote k @ 58 # stringify v @ (if ps = [] then [] else 44 # stringify_members ps)"

section \<open>Values of the language\<close>

text \<open>
  \<open>truthy\<close> is ToBoolean on the values a JSON body can hold. A number is falsy when
  the double nearest to its literal is zero: the literal's value, its digits times a
  power of ten, is at most \<open>2^-1075\<close>, half the least positive double (a tie goes to
  the even neighbour, which is zero). So \<open>0\<close>, \<open>-0.0\<close> and \<open>1e-400\<close> are falsy. A
  missing property is \<open>None\<close> (\<open>undefined\<close>), which is falsy and takes a
  destructuring default.
\<close>

datatype js_error = TypeError | SyntaxError | Error jsstring | SqliteConstraint

definition digits_value :: "jsstring \<Rightarrow> nat" where
  "digits_value ds = foldl (\<lambda>a c. 10 * a + (c - 48)) 0 ds"

definition mantissa :: "jsstring \<Rightarrow> jsstring" where
  "mantissa n = takeWhile (\<lambda>c. c \<noteq> 101 \<and> c \<noteq> 69) n"

definition significand :: "jsstring \<Rightarrow> nat" where
  "significand n = digits_value (filter is_digit (mantissa n))"

definition fraction_digits :: "jsstring \<Rightarrow> nat" where
  "fraction_digits n = length (filter is_digit (dropWhile (\<lambda>c. c \<noteq> 46) (mantissa n)))"

definition exponent :: "jsstring \<Rightarrow> int" where
  "exponent n =
     (case dropWhile (\<lambda>c. c \<noteq> 101 \<and> c \<noteq> 69) n of
        [] \<Rightarrow> 0
      | e # r \<Rightarrow>
          (case r of
             [] \<Rightarrow> 0
           | s # ds \<Rightarrow>
               if s = 45 then - int (digits_value ds)
               else if s = 43 then int (digits_value ds)
               else int (digits_value r)))"

definition zero_literal :: "jsstring \<Rightarrow> bool" where
  "zero_literal n =
     (significand n = 0
      \<or> (exponent n < int (fraction_digits n)
          \<and> significand n * 2 ^ 1075 \<le> 10 ^ nat (int (fraction_digits n) - exponent n)))"

fun truthy :: "jsval \<Rightarrow> bool" where
  "truthy JNull = False"
| "truthy (JBool b) = b"
| "truthy (JNum n) = (\<not> zero_literal n)"
| "truthy (JStr s) = (s \<noteq> [])"
| "truthy (JArr vs) = True"
| "truthy (JObj ps) = True"

definition truthy_opt :: "jsval option \<Rightarrow> bool" where
  "truthy_opt v = (case v of None \<Rightarrow> False | Some x \<Rightarrow> truthy x)"

definition default_to :: "jsval \<Rightarrow> jsval option \<Rightarrow> jsval" where
  "default_to d v = (case v of None \<Rightarrow> d | Some x \<Rightarrow> x)"

definition js_or :: "jsval \<Rightarrow> jsval \<Rightarrow> jsval" where
  "js_or a b = (if truthy a then a else b)"

text \<open>
  \<open>get_prop v k\<close> is \<open>v.k\<close> for the property names the handlers read; only an object
  parsed from JSON has such a property. \<open>body_field body k\<close> reads \<open>k\<close> from
  \<open>req.body || {}\<close>.
\<close>

definition get_prop :: "jsval \<Rightarrow> jsstring \<Rightarrow> jsval option" where
  "get_prop v k = (case v of JObj ps \<Rightarrow> map_of ps k | _ \<Rightarrow> None)"

definition body_field :: "jsval option \<Rightarrow> jsstring \<Rightarrow> jsval option" where
  "body_field body k = (case body of None \<Rightarrow> None | Some v \<Rightarrow> get_prop v k)"

text \<open>
  \<open>js_trim v\<close> is \<open>v.trim()\<close>: only a string has the method, on any other value the
  call throws a TypeError.
\<close>

definition js_trim :: "jsval \<Rightarrow> js_error + jsstring" where
  "js_trim v = (case v of JStr s \<Rightarrow> Inr (trim s) | _ \<Rightarrow> Inl TypeError)"

text \<open>
  \<open>to_string\<close> is ToString as a template literal applies it. An array joins its
  elements with a comma, \<open>null\<close> elements as the empty string. An object without a
  \<open>toString\<close> member of its own is \<open>[object Object]\<close>; with one (never callable,
  coming from JSON) the conversion throws.
\<close>

fun to_string :: "jsval \<Rightarrow> js_error + jsstring"
  and to_string_elems :: "jsval list \<Rightarrow> js_error + jsstring list" where
  "to_string JNull = Inr (lit ''null'')"
| "to_string (JBool b) = Inr (if b then lit ''true'' else lit ''false'')"
| "to_string (JNum n) = Inr n"
| "to_string (JStr s) = Inr s"
| "to_string (JArr vs) =
     (case to_string_elems vs of Inl e \<Rightarrow> Inl e | Inr ss \<Rightarrow> Inr (join [44] ss))"
| "to_string (JObj ps) =
     (if map_of ps (lit ''toString'') \<noteq> None then Inl TypeError
      else Inr (lit ''[object Object]''))"
| "to_string_elems [] = Inr []"
| "to_string_elems (v # vs) =
     (case (if v = JNull then Inr [] else to_string v) of
        Inl e \<Rightarrow> Inl e
      | Inr s \<Rightarrow> (case to_string_elems vs of Inl e \<Rightarrow> Inl e | Inr ss \<Rightarrow> Inr (s # ss)))"

fun decimal :: "nat \<Rightarrow> jsstring" where
  "decimal n = (if n < 10 then [48 + n] else decimal (n div 10) @ [48 + n mod 10])"

declare decimal.simps [simp del]

section \<open>The record store\<close>

text \<open>
  The tables \<open>prontuarios\<close> and \<open>exames\<close> as lists of rows in insertion order, each
  with the counter AUTOINCREMENT keeps of the largest id ever given. What the storage
  engine does with a bound value is its own business and a parameter here: the text
  it keeps in a TEXT column for a value that is neither a string nor \<open>null\<close>, and the
  integer it compares with an INTEGER key, if it reads the value as one. The engine is
  taken to be available: a statement fails only on a constraint.
\<close>

record engine =
  text_of :: "jsval \<Rightarrow> jsstring"
  integer_of :: "jsval \<Rightarrow> nat option"

definition sql_text :: "engine \<Rightarrow> jsval \<Rightarrow> jsstring option" where
  "sql_text E v = (case v of JNull \<Rightarrow> None | JStr s \<Rightarrow> Some s | _ \<Rightarrow> Some (text_of E v))"

record 'x prontuario =
  p_id :: nat
  p_nome :: "jsstring option"
  p_cpf :: "jsstring option"
  p_data_consulta :: "jsstring option"
  p_diagnostico :: "jsstring option"
  p_sintomas :: "jsstring option"
  p_anamnese :: "jsstring option"
  p_exames_solicitados :: 'x

record exame =
  e_id :: nat
  e_prontuario_id :: nat
  e_tipo :: "jsstring option"
  e_observacoes :: "jsstring option"
  e_arquivo_path :: "jsstring option"
  e_resultado_texto :: "jsstring option"
  e_data_resultado :: "jsstring option"
  e_created_at :: jsstring

record database =
  prontuarios :: "jsstring prontuario list"
  prontuarios_seq :: nat
  exames :: "exame list"
  exames_seq :: nat

definition next_id :: "nat \<Rightarrow> nat list \<Rightarrow> nat" where
  "next_id seq ids = Suc (fold max ids seq)"

text \<open>
  \<open>ORDER BY created_at DESC\<close> and \<open>ORDER BY id DESC\<close>: the rows by descending key,
  rows with equal keys in table order, the earlier row first, as the engine returns
  them. \<open>order_desc\<close> takes the rows from the last to the first and puts each before
  the first row already placed whose key is not larger.
\<close>

fun insert_desc :: "('a \<Rightarrow> 'k::linorder) \<Rightarrow> 'a \<Rightarrow> 'a list \<Rightarrow> 'a list" where
  "insert_desc key x [] = [x]"
| "insert_desc key x (y # ys) =
     (if key y \<le> key x then x # y # ys else y # insert_desc key x ys)"

definition order_desc :: "('a \<Rightarrow> 'k::linorder) \<Rightarrow> 'a list \<Rightarrow> 'a list" where
  "order_desc key rows = foldr (insert_desc key) rows []"

section \<open>The exam summary\<close>

text \<open>
  \<open>fetchExamsSummary\<close>: the exams of one record, latest \<open>created_at\<close> first, one
  entry each. \<open>labelled\<close> is \<open>if (r.x) parts.push(`Label: ${r.x}`)\<close>: a column that is
  NULL or the empty string adds nothing.
\<close>

definition present :: "jsstring option \<Rightarrow> bool" where
  "present col = (case col of None \<Rightarrow> False | Some s \<Rightarrow> s \<noteq> [])"

definition labelled :: "jsstring \<Rightarrow> jsstring option \<Rightarrow> jsstring list" where
  "labelled label col = (case col of None \<Rightarrow> [] | Some s \<Rightarrow> if s = [] then [] else [label @ s])"

definition interpret_note :: jsstring where
  "interpret_note =
     lit ''Sem laudo textual: interpretar arquivo anexado.''"

definition exam_parts :: "exame \<Rightarrow> jsstring list" where
  "exam_parts r =
     labelled (lit ''Tipo: '') (e_tipo r)
     @ labelled (lit ''Data de anexo: '') (e_data_resultado r)
     @ labelled (lit ''Resultado textual: '') (e_resultado_texto r)
     @ labelled (lit ''Obs: '') (e_observacoes r)
     @ (if present (e_arquivo_path r) then
          labelled (lit ''Arquivo: '') (e_arquivo_path r)
          @ (if present (e_resultado_texto r) then [] else [interpret_note])
        else [])"

definition exam_line :: "exame \<Rightarrow> jsstring" where
  "exam_line r = lit ''- '' @ join (lit '' | '') (exam_parts r)"

definition exams_of :: "engine \<Rightarrow> database \<Rightarrow> jsval \<Rightarrow> exame list" where
  "exams_of E db prontuario_id =
     order_desc e_created_at
       (filter (\<lambda>r. integer_of E prontuario_id = Some (e_prontuario_id r)) (exames db))"

definition fetchExamsSummary :: "engine \<Rightarrow> database \<Rightarrow> jsval \<Rightarrow> jsstring" where
  "fetchExamsSummary E db prontuario_id = join [10] (map exam_line (exams_of E db prontuario_id))"

section \<open>The inference client\<close>

text \<open>
  \<open>askOllama\<close> posts the prompt to the configured host. The remote service is a
  parameter: for a prompt, either the request fails or a status and a body come back.
  A status outside 200..299 is thrown as an Error carrying status and body; the body
  of a success is parsed as JSON and its \<open>response\<close> member, trimmed, is the answer.
\<close>

record config =
  OLLAMA_HOST :: jsstring
  OLLAMA_MODEL :: jsstring

datatype http_response = HttpResponse nat jsstring

type_synonym service = "jsstring \<Rightarrow> js_error + http_response"

definition askOllama :: "service \<Rightarrow> jsstring \<Rightarrow> js_error + jsstring" where
  "askOllama fetch prompt =
     (case fetch prompt of
        Inl e \<Rightarrow> Inl e
      | Inr (HttpResponse status txt) \<Rightarrow>
          if \<not> (200 \<le> status \<and> status \<le> 299) then
            Inl (Error (lit ''Ollama HTTP '' @ decimal status @ lit '' - '' @ txt))
          else
            (case JSON_parse txt of
               None \<Rightarrow> Inl SyntaxError
             | Some JNull \<Rightarrow> Inl TypeError
             | Some data \<Rightarrow> js_trim (js_or (default_to (JStr []) (get_prop data (lit ''response''))) (JStr []))))"

section \<open>The response interpreter\<close>

text \<open>
  \<open>match_brace_span raw\<close> is \<open>raw.match(/\{[\s\S]*\}$/)\<close>: the leftmost position
  holding an opening brace from which the text runs to a closing brace at the very
  end; the match is the whole rest of the text from there.
\<close>

fun match_brace_span :: "jsstring \<Rightarrow> jsstring option" where
  "match_brace_span [] = None"
| "match_brace_span (c # cs) =
     (if c = 123 \<and> cs \<noteq> [] \<and> last cs = 125 then Some (c # cs) else match_brace_span cs)"

definition fallback_text :: "jsstring \<Rightarrow> jsval" where
  "fallback_text raw = JObj [(lit ''texto'', JStr (if raw = [] then lit ''sem resposta'' else raw))]"

definition interpret_raw :: "jsstring \<Rightarrow> js_error + jsval" where
  "interpret_raw raw =
     (case JSON_parse raw of
        Some v \<Rightarrow> Inr v
      | None \<Rightarrow>
          (case match_brace_span raw of
             Some m \<Rightarrow> (case JSON_parse m of Some v \<Rightarrow> Inr v | None \<Rightarrow> Inl SyntaxError)
           | None \<Rightarrow> Inr (fallback_text raw)))"

section \<open>POST /ai-diagnostico\<close>

text \<open>
  A reply is a status with a JSON body or a text body. \<open>Fault\<close> is a reply that
  reports a thrown error: the 502 of the route's catch
  (\<open>{error: 'IA indisponivel', detail: e.message, model, host}\<close>), the 500 of a failed
  statement (\<open>{error: err.message}\<close>) and the 500 Express answers when a handler
  throws outside any try.
\<close>

datatype reply = Json nat jsval | Send nat jsstring | Fault nat js_error

fun status_of :: "reply \<Rightarrow> nat" where
  "status_of (Json st v) = st"
| "status_of (Send st s) = st"
| "status_of (Fault st e) = st"

definition prompt_intro :: jsstring where
  "prompt_intro =
     [10] @ lit ''Voc'' @ [234] @ lit '' atua como m'' @ [233]
     @ lit ''dico regulador virtual de triagem cl'' @ [237]
     @ lit ''nica, seguindo rigorosamente protocolos da OMS e diretrizes ''
     @ lit ''do Sistema '' @ [218] @ lit ''nico de Sa'' @ [250]
     @ lit ''de (SUS). Responda em portugu'' @ [234] @ lit ''s do Brasil.'' @ [10]
     @ lit ''N'' @ [227] @ lit ''o forne'' @ [231] @ lit ''a diagn'' @ [243]
     @ lit ''stico definitivo nem prescri'' @ [231, 227] @ lit ''o; formule apenas hip''
     @ [243] @ lit ''teses diagn'' @ [243]
     @ lit ''sticas iniciais e condutas orientativas.'' @ [10]
     @ lit ''Utilize exclusivamente os dados fornecidos; n'' @ [227]
     @ lit ''o invente informa'' @ [231, 245]
     @ lit ''es. Quando houver lacunas, declare a incerteza explicitament'' @ lit ''e.''
     @ [10] @ lit ''Aplique racioc'' @ [237] @ lit ''nio cl'' @ [237]
     @ lit ''nico estruturado, terminologia t'' @ [233] @ lit ''cnica e estratifica''
     @ [231, 227] @ lit ''o de risco baseada em evid'' @ [234]
     @ lit ''ncias internacionais e nacionais vigentes.'' @ [10, 10]
     @ lit ''Regras de gravidade (selecione apenas UMA):'' @ [10] @ lit ''- '' @ [34]
     @ lit ''alta'' @ [34] @ lit '': falta de ar moderada/grave, SpO2 < 95%, dor/press''
     @ [227] @ lit ''o tor'' @ [225] @ lit ''cica importante, confus'' @ [227]
     @ lit ''o/sonol'' @ [234] @ lit ''ncia, s'' @ [237]
     @ lit ''ncope, rigidez de nuca, hemoptise, sinais de sepse, desidrat'' @ lit ''a''
     @ [231, 227] @ lit ''o grave, piora r'' @ [225] @ lit ''pida.'' @ [10] @ lit ''- ''
     @ [34] @ lit ''moderada'' @ [34] @ lit '': febre '' @ [8805] @ lit '' 38,5 '' @ [176]
     @ lit ''C por '' @ [8805] @ lit '' 3 dias, dor tor'' @ [225]
     @ lit ''cica leve-moderada, v'' @ [244]
     @ lit ''mitos persistentes, diarreia moderada, dor intensa localizad''
     @ lit ''a, piora sem sinais de alarme.'' @ [10] @ lit ''- '' @ [34] @ lit ''baixa''
     @ [34] @ lit '': sintomas leves autolimitados e sem alarme.'' @ [10] @ lit ''- ''
     @ [34] @ lit ''indefinida'' @ [34] @ lit '': dados insuficientes para classifica''
     @ [231, 227] @ lit ''o.'' @ [10, 10] @ lit ''Sinais de alarme poss'' @ [237]
     @ lit ''veis:'' @ [10] @ lit ''['' @ [34] @ lit ''falta de ar'' @ [34] @ lit '',''
     @ [34] @ lit ''SpO2<95%'' @ [34] @ lit '','' @ [34] @ lit ''dor/press'' @ [227]
     @ lit ''o no peito'' @ [34] @ lit '','' @ [34] @ lit ''confus'' @ [227]
     @ lit ''o/sonol'' @ [234] @ lit ''ncia'' @ [34] @ lit '','' @ [34]
     @ lit ''rigidez de nuca'' @ [34] @ lit '','' @ [34] @ lit ''hemoptise'' @ [34]
     @ lit '','' @ [34] @ lit ''desidrata'' @ [231, 227] @ lit ''o grave'' @ [34]
     @ lit '','' @ [34] @ lit ''olig'' @ [250] @ lit ''ria'' @ [34] @ lit '','' @ [34]
     @ lit ''cianose'' @ [34] @ lit '','' @ [34] @ lit ''sinais de sepse'' @ [34]
     @ lit '','' @ [34] @ lit ''piora r'' @ [225] @ lit ''pida'' @ [34] @ lit '','' @ [34]
     @ lit ''s'' @ [237] @ lit ''ncope'' @ [34] @ lit '']'' @ [10, 10]
     @ lit ''Formato OBRIGAT'' @ [211] @ lit ''RIO (JSON v'' @ [225]
     @ lit ''lido, sem texto fora do JSON):'' @ [10] @ lit ''{'' @ [10] @ lit ''  '' @ [34]
     @ lit ''hipoteses'' @ [34] @ lit '': ['' @ [34] @ lit ''hip'' @ [243] @ lit ''tese 1''
     @ [34] @ lit '', '' @ [34] @ lit ''hip'' @ [243] @ lit ''tese 2'' @ [34] @ lit '', ''
     @ [34] @ lit ''hip'' @ [243] @ lit ''tese 3'' @ [34] @ lit ''],'' @ [10] @ lit ''  ''
     @ [34] @ lit ''gravidade'' @ [34] @ lit '': '' @ [34]
     @ lit ''baixa|moderada|alta|indefinida'' @ [34] @ lit '','' @ [10] @ lit ''  '' @ [34]
     @ lit ''sinais_alarme'' @ [34] @ lit '': ['' @ [34]
     @ lit ''zero ou mais itens da lista acima'' @ [34] @ lit ''],'' @ [10] @ lit ''  ''
     @ [34] @ lit ''justificativa'' @ [34] @ lit '': '' @ [34] @ lit ''at'' @ [233]
     @ lit '' 50 palavras, objetiva'' @ [34] @ lit '','' @ [10] @ lit ''  '' @ [34]
     @ lit ''recomendacao'' @ [34] @ lit '': '' @ [34] @ lit ''at'' @ [233]
     @ lit '' 160 caracteres'' @ [34] @ lit '','' @ [10] @ lit ''  '' @ [34]
     @ lit ''exames_sugeridos'' @ [34] @ lit '': ['' @ [34] @ lit ''opcional: at'' @ [233]
     @ lit '' 3'' @ [34] @ lit ''],'' @ [10] @ lit ''  '' @ [34] @ lit ''confianca'' @ [34]
     @ lit '': 0.0'' @ [10] @ lit ''}'' @ [10, 10] @ lit ''DADOS DO PACIENTE'' @ [10]
     @ lit ''SINTOMAS:'' @ [10]"

definition prompt_anamnese :: jsstring where
  "prompt_anamnese =
     [10, 10] @ lit ''ANAMNESE:'' @ [10]"

definition prompt_exames :: jsstring where
  "prompt_exames =
     [10, 10] @ lit ''RESULTADOS/RESUMO DE EXAMES:'' @ [10]"

definition prompt_end :: jsstring where
  "prompt_end =
     [10] @ lit ''    ''"


definition nao_informado :: jsstring where
  "nao_informado =
     lit ''(n'' @ [227] @ lit ''o informado)''"

definition nao_informada :: jsstring where
  "nao_informada =
     lit ''(n'' @ [227] @ lit ''o informada)''"

definition sem_exames :: jsstring where
  "sem_exames =
     lit ''(sem exames dispon'' @ [237] @ lit ''veis)''"

text \<open>
  The check \<open>!sintomas.trim() && !anamnese.trim()\<close>: \<open>Inr True\<close> when it holds (the
  400 follows), \<open>Inl\<close> when a \<open>trim\<close> throws. The right operand is evaluated only when
  the left one is true.
\<close>

definition nothing_informed :: "jsval \<Rightarrow> jsval \<Rightarrow> js_error + bool" where
  "nothing_informed sintomas anamnese =
     (case js_trim sintomas of
        Inl e \<Rightarrow> Inl e
      | Inr s \<Rightarrow>
          if s \<noteq> [] then Inr False
          else (case js_trim anamnese of Inl e \<Rightarrow> Inl e | Inr a \<Rightarrow> Inr (a = [])))"

definition stored_summary :: "engine \<Rightarrow> database \<Rightarrow> jsval \<Rightarrow> jsstring" where
  "stored_summary E db prontuario_id =
     (if truthy prontuario_id then fetchExamsSummary E db prontuario_id else [])"

definition exames_bloco :: "engine \<Rightarrow> database \<Rightarrow> jsval \<Rightarrow> jsval \<Rightarrow> js_error + jsstring" where
  "exames_bloco E db exames_resumo prontuario_id =
     (if truthy exames_resumo then
        (case js_trim exames_resumo of
           Inl e \<Rightarrow> Inl e
         | Inr t \<Rightarrow> if t \<noteq> [] then Inr t else Inr (stored_summary E db prontuario_id))
      else Inr (stored_summary E db prontuario_id))"

definition build_prompt :: "jsval \<Rightarrow> jsval \<Rightarrow> jsstring \<Rightarrow> js_error + jsstring" where
  "build_prompt sintomas anamnese examesBloco =
     (case to_string (js_or sintomas (JStr nao_informado)) of
        Inl e \<Rightarrow> Inl e
      | Inr s \<Rightarrow>
          (case to_string (js_or anamnese (JStr nao_informada)) of
             Inl e \<Rightarrow> Inl e
           | Inr a \<Rightarrow>
               Inr (trim (prompt_intro @ s @ prompt_anamnese @ a @ prompt_exames
                          @ (if examesBloco = [] then sem_exames else examesBloco)
                          @ prompt_end))))"

text \<open>
  The handler, with the prompts it sent to the service: none before the input check
  has passed and the prompt is built, one afterwards.
\<close>

definition ai_diagnostico ::
  "config \<Rightarrow> engine \<Rightarrow> service \<Rightarrow> database \<Rightarrow> jsval option \<Rightarrow> reply \<times> jsstring list" where
  "ai_diagnostico cfg E fetch db body =
     (let sintomas = default_to (JStr []) (body_field body (lit ''sintomas''));
          anamnese = default_to (JStr []) (body_field body (lit ''anamnese''));
          prontuario_id = default_to JNull (body_field body (lit ''prontuario_id''));
          exames_resumo = default_to (JStr []) (body_field body (lit ''exames_resumo''))
      in case nothing_informed sintomas anamnese of
           Inl e \<Rightarrow> (Fault 502 e, [])
         | Inr True \<Rightarrow>
             (Json 400 (JObj [(lit ''error'', JStr (lit ''Informe ao menos sintomas ou anamnese.''))]), [])
         | Inr False \<Rightarrow>
             (case exames_bloco E db exames_resumo prontuario_id of
                Inl e \<Rightarrow> (Fault 502 e, [])
              | Inr examesBloco \<Rightarrow>
                  (case build_prompt sintomas anamnese examesBloco of
                     Inl e \<Rightarrow> (Fault 502 e, [])
                   | Inr prompt \<Rightarrow>
                       (case askOllama fetch prompt of
                          Inl e \<Rightarrow> (Fault 502 e, [prompt])
                        | Inr raw \<Rightarrow>
                            (case interpret_raw raw of
                               Inl e \<Rightarrow> (Fault 502 e, [prompt])
                             | Inr sugestao \<Rightarrow>
                                 (Json 200 (JObj [(lit ''sugestao'', sugestao),
                                                  (lit ''model'', JStr (OLLAMA_MODEL cfg)),
                                                  (lit ''host'', JStr (OLLAMA_HOST cfg))]),
                                  [prompt]))))))"

section \<open>POST, PUT, DELETE /prontuario and GET /prontuarios\<close>

definition campos_obrigatorios :: jsstring where
  "campos_obrigatorios =
     lit ''Campos obrigat'' @ [243] @ lit ''rios: nome, cpf, data_consulta, diagnostico''"

definition prontuario_salvo :: jsstring where
  "prontuario_salvo =
     lit ''Prontu'' @ [225] @ lit ''rio salvo!''"

definition id_obrigatorio_atualizacao :: jsstring where
  "id_obrigatorio_atualizacao =
     lit ''ID obrigat'' @ [243] @ lit ''rio para atualiza'' @ [231, 227] @ lit ''o''"

definition id_obrigatorio_exclusao :: jsstring where
  "id_obrigatorio_exclusao =
     lit ''ID obrigat'' @ [243] @ lit ''rio para exclus'' @ [227] @ lit ''o''"

definition prontuario_nao_encontrado :: jsstring where
  "prontuario_nao_encontrado =
     lit ''Prontu'' @ [225] @ lit ''rio n'' @ [227] @ lit ''o encontrado''"

definition prontuario_atualizado :: jsstring where
  "prontuario_atualizado =
     lit ''Prontu'' @ [225] @ lit ''rio atualizado!''"

definition prontuario_excluido :: jsstring where
  "prontuario_excluido =
     lit ''Prontu'' @ [225] @ lit ''rio exclu'' @ [237] @ lit ''do!''"

text \<open>
  \<open>bind_text\<close> is a handler's value bound to a TEXT column (\<open>undefined\<close> binds
  nothing and leaves NULL). \<open>examesStr\<close> is the text kept for the list of requested
  exams.
\<close>

definition bind_text :: "engine \<Rightarrow> jsval option \<Rightarrow> jsstring option" where
  "bind_text E v = (case v of None \<Rightarrow> None | Some x \<Rightarrow> sql_text E x)"

definition examesStr :: "jsval \<Rightarrow> jsstring" where
  "examesStr exames_solicitados =
     (case exames_solicitados of JArr vs \<Rightarrow> stringify (JArr vs) | _ \<Rightarrow> lit ''[]'')"

definition campos_faltando :: "jsval option \<Rightarrow> bool" where
  "campos_faltando body =
     (\<not> truthy_opt (body_field body (lit ''nome'')) \<or> \<not> truthy_opt (body_field body (lit ''cpf''))
      \<or> \<not> truthy_opt (body_field body (lit ''data_consulta''))
      \<or> \<not> truthy_opt (body_field body (lit ''diagnostico'')))"

definition row_of_body :: "engine \<Rightarrow> nat \<Rightarrow> jsval option \<Rightarrow> jsstring prontuario" where
  "row_of_body E k body =
     \<lparr>p_id = k,
      p_nome = bind_text E (body_field body (lit ''nome'')),
      p_cpf = bind_text E (body_field body (lit ''cpf'')),
      p_data_consulta = bind_text E (body_field body (lit ''data_consulta'')),
      p_diagnostico = bind_text E (body_field body (lit ''diagnostico'')),
      p_sintomas = sql_text E (default_to (JStr []) (body_field body (lit ''sintomas''))),
      p_anamnese = sql_text E (default_to (JStr []) (body_field body (lit ''anamnese''))),
      p_exames_solicitados =
        examesStr (default_to (JArr []) (body_field body (lit ''exames_solicitados'')))\<rparr>"

definition post_prontuario :: "engine \<Rightarrow> database \<Rightarrow> jsval option \<Rightarrow> reply \<times> database" where
  "post_prontuario E db body =
     (if campos_faltando body then (Send 400 campos_obrigatorios, db)
      else
        (let lastID = next_id (prontuarios_seq db) (map p_id (prontuarios db))
         in (Json 201 (JObj [(lit ''message'', JStr prontuario_salvo),
                             (lit ''id'', JNum (decimal lastID))]),
             db\<lparr>prontuarios := prontuarios db @ [row_of_body E lastID body],
                prontuarios_seq := lastID\<rparr>)))"

text \<open>
  \<open>WHERE id = ?\<close> with the route parameter, a string, bound: the rows whose id is the
  integer the engine reads the parameter as. \<open>Number(id)\<close> in the answer is written
  as that integer.
\<close>

definition matches :: "engine \<Rightarrow> jsstring \<Rightarrow> jsstring prontuario \<Rightarrow> bool" where
  "matches E ident r = (integer_of E (JStr ident) = Some (p_id r))"

definition put_prontuario ::
  "engine \<Rightarrow> database \<Rightarrow> jsstring \<Rightarrow> jsval option \<Rightarrow> reply \<times> database" where
  "put_prontuario E db ident body =
     (if ident = [] then (Send 400 id_obrigatorio_atualizacao, db)
      else if campos_faltando body then (Send 400 campos_obrigatorios, db)
      else if filter (matches E ident) (prontuarios db) = [] then
        (Send 404 prontuario_nao_encontrado, db)
      else
        (Json 200 (JObj [(lit ''message'', JStr prontuario_atualizado),
                         (lit ''id'', JNum (case integer_of E (JStr ident) of
                                              None \<Rightarrow> [] | Some k \<Rightarrow> decimal k))]),
         db\<lparr>prontuarios :=
              map (\<lambda>r. if matches E ident r then row_of_body E (p_id r) body else r)
                (prontuarios db)\<rparr>))"

text \<open>
  Foreign keys are on, so deleting a record deletes its exams with it
  (\<open>ON DELETE CASCADE\<close>).
\<close>

definition delete_prontuario :: "engine \<Rightarrow> database \<Rightarrow> jsstring \<Rightarrow> reply \<times> database" where
  "delete_prontuario E db ident =
     (if ident = [] then (Send 400 id_obrigatorio_exclusao, db)
      else if filter (matches E ident) (prontuarios db) = [] then
        (Send 404 prontuario_nao_encontrado, db)
      else
        (Json 200 (JObj [(lit ''message'', JStr prontuario_excluido),
                         (lit ''id'', JNum (case integer_of E (JStr ident) of
                                              None \<Rightarrow> [] | Some k \<Rightarrow> decimal k))]),
         db\<lparr>prontuarios := filter (\<lambda>r. \<not> matches E ident r) (prontuarios db),
            exames :=
              filter (\<lambda>x. integer_of E (JStr ident) \<noteq> Some (e_prontuario_id x)) (exames db)\<rparr>))"

text \<open>
  GET /prontuarios answers 200 with the rows, largest id first, the requested exams
  of each parsed back: \<open>JSON.parse(r.exames_solicitados || '[]')\<close>, and the empty list
  when that throws.
\<close>

definition decode_exames :: "jsstring \<Rightarrow> jsval" where
  "decode_exames s =
     (case JSON_parse (if s = [] then lit ''[]'' else s) of None \<Rightarrow> JArr [] | Some v \<Rightarrow> v)"

definition decode_row :: "jsstring prontuario \<Rightarrow> jsval prontuario" where
  "decode_row r =
     \<lparr>p_id = p_id r, p_nome = p_nome r, p_cpf = p_cpf r,
      p_data_consulta = p_data_consulta r, p_diagnostico = p_diagnostico r,
      p_sintomas = p_sintomas r, p_anamnese = p_anamnese r,
      p_exames_solicitados = decode_exames (p_exames_solicitados r)\<rparr>"

definition get_prontuarios :: "database \<Rightarrow> jsval prontuario list" where
  "get_prontuarios db = map decode_row (order_desc p_id (prontuarios db))"

section \<open>POST /exames/upload and POST /exames/texto\<close>

text \<open>
  The upload storage names the file before the handler runs:
  \<open>originalname.replace(/[^\w.\-]+/g, '_')\<close> after the time of the upload in
  milliseconds and two underscores. The replacement scans from the left; where a
  code unit outside the class \<open>[A-Za-z0-9_.-]\<close> stands, the longest run of such
  units is replaced by one underscore.
\<close>

definition safe_char :: "nat \<Rightarrow> bool" where
  "safe_char c =
     ((48 \<le> c \<and> c \<le> 57) \<or> (65 \<le> c \<and> c \<le> 90) \<or> (97 \<le> c \<and> c \<le> 122) \<or> c = 95
      \<or> c = 46 \<or> c = 45)"

function sanitize :: "jsstring \<Rightarrow> jsstring" where
  "sanitize [] = []"
| "sanitize (c # cs) =
     (if safe_char c then c # sanitize cs
      else 95 # sanitize (dropWhile (\<lambda>x. \<not> safe_char x) cs))"
  by pat_completeness auto
termination
  by (relation "measure length") (auto simp: less_Suc_eq_le length_dropWhile_le)

definition storage_filename :: "nat \<Rightarrow> jsstring \<Rightarrow> jsstring" where
  "storage_filename ts originalname = decimal ts @ lit ''__'' @ sanitize originalname"

definition arquivo_nao_enviado :: jsstring where
  "arquivo_nao_enviado =
     lit ''Arquivo n'' @ [227] @ lit ''o enviado (campo '' @ [34] @ lit ''arquivo'' @ [34]
     @ lit '')''"

text \<open>
  Both routes insert one row into \<open>exames\<close>. The insert fails on the foreign key
  unless \<open>prontuario_id\<close> is read as the id of a stored record. \<open>now\<close> is the
  \<open>datetime('now')\<close> the engine gives \<open>created_at\<close>, \<open>ts\<close> the \<open>Date.now()\<close> of the
  upload, and \<open>originalname\<close> the name of the file sent as \<open>arquivo\<close>, if one was
  (a file under another field name is refused by the upload middleware before the
  handler runs, which is not modelled).
\<close>

definition insert_exame ::
  "engine \<Rightarrow> database \<Rightarrow> jsstring \<Rightarrow> jsval \<Rightarrow> jsval \<Rightarrow> jsval \<Rightarrow> jsstring option \<Rightarrow> jsstring option
     \<Rightarrow> jsval \<Rightarrow> js_error + nat \<times> database" where
  "insert_exame E db now prontuario_id tipo observacoes arquivo_path resultado_texto data =
     (case integer_of E prontuario_id of
        None \<Rightarrow> Inl SqliteConstraint
      | Some k \<Rightarrow>
          if k \<notin> set (map p_id (prontuarios db)) then Inl SqliteConstraint
          else
            (let lastID = next_id (exames_seq db) (map e_id (exames db))
             in Inr (lastID,
                  db\<lparr>exames := exames db @
                       [\<lparr>e_id = lastID, e_prontuario_id = k, e_tipo = sql_text E tipo,
                         e_observacoes = sql_text E observacoes, e_arquivo_path = arquivo_path,
                         e_resultado_texto = resultado_texto, e_data_resultado = sql_text E data,
                         e_created_at = now\<rparr>],
                     exames_seq := lastID\<rparr>)))"

definition data_final :: "jsval option \<Rightarrow> jsval" where
  "data_final body =
     js_or (js_or (default_to (JStr []) (body_field body (lit ''data_anexo'')))
                  (default_to (JStr []) (body_field body (lit ''data_resultado''))))
           (JStr [])"

definition exames_upload ::
  "engine \<Rightarrow> database \<Rightarrow> jsstring \<Rightarrow> nat \<Rightarrow> jsval option \<Rightarrow> jsstring option \<Rightarrow> reply \<times> database" where
  "exames_upload E db now ts body originalname =
     (if \<not> truthy_opt (body_field body (lit ''prontuario_id'')) then
        (Json 400 (JObj [(lit ''error'', JStr (lit ''Informe prontuario_id''))]), db)
      else
        (case originalname of
           None \<Rightarrow> (Json 400 (JObj [(lit ''error'', JStr arquivo_nao_enviado)]), db)
         | Some name \<Rightarrow>
             (let arquivo_path = lit ''/uploads/'' @ storage_filename ts name
              in case insert_exame E db now
                        (default_to JNull (body_field body (lit ''prontuario_id'')))
                        (default_to (JStr []) (body_field body (lit ''tipo'')))
                        (default_to (JStr []) (body_field body (lit ''observacoes'')))
                        (Some arquivo_path) None (js_or (data_final body) JNull) of
                   Inl e \<Rightarrow> (Fault 500 e, db)
                 | Inr (lastID, db') \<Rightarrow>
                     (Json 201 (JObj [(lit ''message'', JStr (lit ''Exame anexado com sucesso'')),
                                      (lit ''id'', JNum (decimal lastID)),
                                      (lit ''arquivo_path'', JStr arquivo_path),
                                      (lit ''data_anexo'', js_or (data_final body) JNull)]),
                      db'))))"

definition exames_texto ::
  "engine \<Rightarrow> database \<Rightarrow> jsstring \<Rightarrow> jsval option \<Rightarrow> reply \<times> database" where
  "exames_texto E db now body =
     (if \<not> truthy_opt (body_field body (lit ''prontuario_id'')) then
        (Json 400 (JObj [(lit ''error'', JStr (lit ''Informe prontuario_id''))]), db)
      else
        (case default_to (JStr []) (body_field body (lit ''resultado_texto'')) of
           JStr resultado_texto \<Rightarrow>
             if trim resultado_texto = [] then
               (Json 400 (JObj [(lit ''error'', JStr (lit ''resultado_texto vazio''))]), db)
             else
               (case insert_exame E db now
                       (default_to JNull (body_field body (lit ''prontuario_id'')))
                       (default_to (JStr []) (body_field body (lit ''tipo'')))
                       (default_to (JStr []) (body_field body (lit ''observacoes'')))
                       None (Some resultado_texto) (js_or (data_final body) JNull) of
                  Inl e \<Rightarrow> (Fault 500 e, db)
                | Inr (lastID, db') \<Rightarrow>
                    (Json 201 (JObj [(lit ''message'', JStr (lit ''Resultado registrado'')),
                                     (lit ''id'', JNum (decimal lastID)),
                                     (lit ''data_anexo'', js_or (data_final body) JNull)]),
                     db'))
         | _ \<Rightarrow> (Fault 500 TypeError, db)))"

section \<open>Notions of the statements\<close>

text \<open>
  The cases of a body field the input check distinguishes: absent or a string of
  white space only, and present without being a string. \<open>is_array\<close> is
  \<open>Array.isArray\<close>. \<open>informe_ao_menos\<close> is the 400 of POST /ai-diagnostico.
\<close>

definition absent_or_blank :: "jsval option \<Rightarrow> bool" where
  "absent_or_blank v =
     (case v of None \<Rightarrow> True | Some (JStr s) \<Rightarrow> list_all is_space s | Some _ \<Rightarrow> False)"

definition not_a_string :: "jsval option \<Rightarrow> bool" where
  "not_a_string v = (case v of None \<Rightarrow> False | Some (JStr s) \<Rightarrow> False | Some _ \<Rightarrow> True)"

definition is_array :: "jsval \<Rightarrow> bool" where
  "is_array v = (case v of JArr vs \<Rightarrow> True | _ \<Rightarrow> False)"

definition informe_ao_menos :: reply where
  "informe_ao_menos = Json 400 (JObj [(lit ''error'', JStr (lit ''Informe ao menos sintomas ou anamnese.''))])"

text \<open>
  The attributes of an exam in the order the summary gives them, each with its
  label: type, attachment date, textual result, observations, file reference.
\<close>

definition exam_attributes :: "exame \<Rightarrow> (jsstring \<times> jsstring option) list" where
  "exam_attributes r =
     [(lit ''Tipo: '', e_tipo r),
      (lit ''Data de anexo: '', e_data_resultado r),
      (lit ''Resultado textual: '', e_resultado_texto r),
      (lit ''Obs: '', e_observacoes r),
      (lit ''Arquivo: '', e_arquivo_path r)]"

text \<open>
  A sequence of creations, each on the store the one before left; \<open>created k\<close> is
  the 201 that returns the id \<open>k\<close>. A creation is valid with a list of strings
  \<open>xs\<close> when the required fields are there and \<open>exames_solicitados\<close> is that list.
\<close>

fun post_all :: "engine \<Rightarrow> database \<Rightarrow> jsval option list \<Rightarrow> reply list \<times> database" where
  "post_all E db [] = ([], db)"
| "post_all E db (body # bodies) =
     (case post_prontuario E db body of
        (r, db') \<Rightarrow> (case post_all E db' bodies of (rs, db'') \<Rightarrow> (r # rs, db'')))"

definition created :: "nat \<Rightarrow> reply" where
  "created k = Json 201 (JObj [(lit ''message'', JStr prontuario_salvo), (lit ''id'', JNum (decimal k))])"

definition valid_creation :: "jsval option \<Rightarrow> jsstring list \<Rightarrow> bool" where
  "valid_creation body xs =
     (\<not> campos_faltando body
      \<and> body_field body (lit ''exames_solicitados'') = Some (JArr (map JStr xs)))"

text \<open>
  The replacement of the file name in the words of its description: \<open>runs P s\<close>
  cuts \<open>s\<close> into its maximal runs of code units that agree on \<open>P\<close>, and
  \<open>replace_runs\<close> puts one underscore for every run outside the class of word
  characters, dots and hyphens.
\<close>

fun runs :: "(nat \<Rightarrow> bool) \<Rightarrow> jsstring \<Rightarrow> jsstring list" where
  "runs P [] = []"
| "runs P (c # cs) =
     (case runs P cs of
        [] \<Rightarrow> [[c]]
      | r # rs \<Rightarrow> if P c = P (hd r) then (c # r) # rs else [c] # r # rs)"

definition replace_runs :: "jsstring \<Rightarrow> jsstring" where
  "replace_runs name =
     concat (map (\<lambda>r. if safe_char (hd r) then r else [95]) (runs safe_char name))"

section \<open>Inputs of the examples\<close>

text \<open>
  A configuration; an engine that reads a string or number of decimal digits as that
  integer and keeps a number as its literal, a boolean as \<open>1\<close> or \<open>0\<close> and an array
  or object as \<open>[object Object]\<close>; a service that answers every prompt with status
  200 and a given body; the prompts built for the bodies \<open>{sintomas: 'febre'}\<close> and
  \<open>{sintomas: 'febre', anamnese: 5}\<close>.
\<close>

definition local_config :: config where
  "local_config = \<lparr>OLLAMA_HOST = lit ''http://127.0.0.1:11434'', OLLAMA_MODEL = lit ''deepseek-r1:8b''\<rparr>"

definition read_decimal :: "jsstring \<Rightarrow> nat option" where
  "read_decimal s =
     (if s \<noteq> [] \<and> list_all is_digit s then Some (foldl (\<lambda>a c. 10 * a + (c - 48)) 0 s)
      else None)"

definition plain_engine :: engine where
  "plain_engine =
     \<lparr>text_of =
        (\<lambda>v. case v of
                JNum n \<Rightarrow> n
              | JBool b \<Rightarrow> (if b then lit ''1'' else lit ''0'')
              | _ \<Rightarrow> lit ''[object Object]''),
      integer_of =
        (\<lambda>v. case v of JStr s \<Rightarrow> read_decimal s | JNum n \<Rightarrow> read_decimal n | _ \<Rightarrow> None)\<rparr>"

definition answering :: "jsstring \<Rightarrow> service" where
  "answering txt = (\<lambda>prompt. Inr (HttpResponse 200 txt))"

definition febre_prompt :: jsstring where
  "febre_prompt =
     trim (prompt_intro @ lit ''febre'' @ prompt_anamnese @ nao_informada @ prompt_exames
           @ sem_exames @ prompt_end)"

definition febre_5_prompt :: jsstring where
  "febre_5_prompt =
     trim (prompt_intro @ lit ''febre'' @ prompt_anamnese @ lit ''5'' @ prompt_exames
           @ sem_exames @ prompt_end)"

text \<open>
  The empty store, and a store with one record and two exams of it: a blood count
  with a textual result, and a later X-ray with a file and no textual result.
\<close>

definition empty_db :: database where
  "empty_db = \<lparr>prontuarios = [], prontuarios_seq = 0, exames = [], exames_seq = 0\<rparr>"

definition two_exams_db :: database where
  "two_exams_db =
     \<lparr>prontuarios =
        [\<lparr>p_id = 1, p_nome = Some (lit ''Ana''), p_cpf = Some (lit ''1''),
          p_data_consulta = Some (lit ''2024-01-01''), p_diagnostico = Some (lit ''gripe''),
          p_sintomas = Some [], p_anamnese = Some [], p_exames_solicitados = lit ''[]''\<rparr>],
      prontuarios_seq = 1,
      exames =
        [\<lparr>e_id = 1, e_prontuario_id = 1, e_tipo = Some (lit ''Hemograma''), e_observacoes = Some [],
          e_arquivo_path = None, e_resultado_texto = Some (lit ''ok''),
          e_data_resultado = Some (lit ''2024-01-02''), e_created_at = lit ''2024-01-02 10:00:00''\<rparr>,
         \<lparr>e_id = 2, e_prontuario_id = 1, e_tipo = Some (lit ''RX''), e_observacoes = Some [],
          e_arquivo_path = Some (lit ''/uploads/1__a.png''), e_resultado_texto = None,
          e_data_resultado = None, e_created_at = lit ''2024-01-03 09:30:00''\<rparr>],
      exames_seq = 2\<rparr>"

text \<open>
  A store with one record that asks for one exam and has none yet, and the store
  after two textual results were posted for it within the same second.
\<close>

definition one_record_db :: database where
  \<open>one_record_db =
     \<lparr>prontuarios =
        [\<lparr>p_id = 1, p_nome = Some (lit ''Ana''), p_cpf = Some (lit ''111''),
          p_data_consulta = Some (lit ''2024-01-02''), p_diagnostico = Some (lit ''gripe''),
          p_sintomas = Some [], p_anamnese = Some [],
          p_exames_solicitados = lit ''["Hemograma"]''\<rparr>],
      prontuarios_seq = 1, exames = [], exames_seq = 0\<rparr>\<close>

definition primeiro_body :: "jsval option" where
  "primeiro_body =
     Some (JObj [(lit ''prontuario_id'', JNum (lit ''1'')), (lit ''tipo'', JStr (lit ''Hemograma'')),
                 (lit ''resultado_texto'', JStr (lit ''primeiro''))])"

definition segundo_body :: "jsval option" where
  "segundo_body =
     Some (JObj [(lit ''prontuario_id'', JNum (lit ''1'')), (lit ''tipo'', JStr (lit ''Hemograma'')),
                 (lit ''resultado_texto'', JStr (lit ''segundo''))])"

definition same_second_db :: database where
  "same_second_db =
     snd (exames_texto plain_engine
            (snd (exames_texto plain_engine one_record_db (lit ''2024-01-04 08:00:00'') primeiro_body))
            (lit ''2024-01-04 08:00:00'') segundo_body)"

text \<open>
  A body whose \<open>nome\<close> is a number too small for a double, which reads as zero.
\<close>

definition underflow_body :: "jsval option" where
  "underflow_body =
     Some (JObj [(lit ''nome'', JNum (lit ''1e-400'')), (lit ''cpf'', JStr (lit ''111'')),
                 (lit ''data_consulta'', JStr (lit ''2024-01-02'')),
                 (lit ''diagnostico'', JStr (lit ''gripe''))])"

text \<open>
  Bodies for POST and PUT /prontuario: two with lists of exam names (one name with
  a non-ASCII letter, one made of a quote, a backslash and a line feed), and one
  whose \<open>exames_solicitados\<close> is a string.
\<close>

definition ana_body :: "jsval option" where
  "ana_body =
     Some (JObj [(lit ''nome'', JStr (lit ''Ana'')), (lit ''cpf'', JStr (lit ''111'')),
                 (lit ''data_consulta'', JStr (lit ''2024-01-02'')),
                 (lit ''diagnostico'', JStr (lit ''gripe'')),
                 (lit ''exames_solicitados'', JArr [JStr (lit ''Hemograma''), JStr [82, 88, 32, 116, 243, 114, 97, 120]])])"

definition rui_body :: "jsval option" where
  "rui_body =
     Some (JObj [(lit ''nome'', JStr (lit ''Rui'')), (lit ''cpf'', JStr (lit ''222'')),
                 (lit ''data_consulta'', JStr (lit ''2024-01-03'')),
                 (lit ''diagnostico'', JStr (lit ''asma'')),
                 (lit ''exames_solicitados'', JArr [JStr [34, 92, 10]])])"

definition text_exames_body :: "jsval option" where
  "text_exames_body =
     Some (JObj [(lit ''nome'', JStr (lit ''Ana'')), (lit ''cpf'', JStr (lit ''111'')),
                 (lit ''data_consulta'', JStr (lit ''2024-01-02'')),
                 (lit ''diagnostico'', JStr (lit ''gripe'')),
                 (lit ''exames_solicitados'', JStr (lit ''Hemograma''))])"

section \<open>Reading back what \<open>JSON.stringify\<close> wrote\<close>

lemma hex_val_hex_digit: "d < 16 \<Longrightarrow> hex_val (hex_digit d) = Some d"
  by (auto simp: hex_val_def hex_digit_def)

lemma hex_digits_sum:
  assumes "c < 65536"
  shows "4096 * (c div 4096 mod 16) + 256 * (c div 256 mod 16) + 16 * (c div 16 mod 16) + c mod 16 = (c::nat)"
proof -
  have a: "c mod 256 = 16 * (c div 16 mod 16) + c mod 16"
    using mod_mult2_eq[of c 16 16] by simp
  have b: "c mod 4096 = 256 * (c div 256 mod 16) + c mod 256"
    using mod_mult2_eq[of c 256 16] by simp
  have "c div 4096 < 16"
    using assms by (simp add: less_mult_imp_div_less)
  then have d: "c div 4096 mod 16 = c div 4096" by simp
  have e: "c = 4096 * (c div 4096) + c mod 4096" by simp
  show ?thesis
    unfolding d using a b e by linarith
qed

lemma hex4_digits:
  assumes "c < 65536"
  shows "hex4 (hex_digit (c div 4096 mod 16)) (hex_digit (c div 256 mod 16))
           (hex_digit (c div 16 mod 16)) (hex_digit (c mod 16)) = Some c"
proof -
  have v: "\<And>n. hex_val (hex_digit (n mod 16)) = Some (n mod 16)"
    by (rule hex_val_hex_digit) simp
  show ?thesis
    by (simp only: hex4_def v prod.case option.case hex_digits_sum[OF assms])
qed

lemma lex_string_uescape:
  "c < 65536 \<Longrightarrow> lex_string (uescape c @ r) = consume c (lex_string r)"
  using hex4_digits[of c] by (simp add: uescape_def)

lemma lex_string_escape_unit:
  "\<not> is_high_surrogate c \<Longrightarrow> \<not> is_low_surrogate c \<Longrightarrow>
   lex_string (escape_unit c @ r) = consume c (lex_string r)"
  by (auto simp: escape_unit_def lex_string_uescape unescape_def)

lemma lex_string_quote_units:
  "lex_string (quote_units s @ 34 # r) = Some (s, r)"
proof (induction s rule: quote_units.induct)
  case 1
  show ?case by simp
next
  case (2 c cs)
  show ?case
  proof (cases "is_high_surrogate c")
    case True
    then have c: "c < 65536" "c \<noteq> 34" "c \<noteq> 92" "\<not> c < 32" by (auto simp: is_high_surrogate_def)
    show ?thesis
    proof (cases cs)
      case Nil
      with True c show ?thesis by (simp add: lex_string_uescape consume_def)
    next
      case (Cons d ds)
      show ?thesis
      proof (cases "is_low_surrogate d")
        case low: True
        then have d: "d \<noteq> 34" "d \<noteq> 92" "\<not> d < 32" by (auto simp: is_low_surrogate_def)
        from 2(1)[OF True Cons low] True Cons low c d show ?thesis by (simp add: consume_def)
      next
        case notlow: False
        from 2(2)[OF True Cons notlow] True Cons notlow c show ?thesis
          by (simp add: lex_string_uescape consume_def)
      qed
    qed
  next
    case nothigh: False
    show ?thesis
    proof (cases "is_low_surrogate c")
      case True
      then have "c < 65536" by (simp add: is_low_surrogate_def)
      with 2(3)[OF nothigh True] nothigh True show ?thesis
        by (simp add: lex_string_uescape consume_def)
    next
      case False
      with 2(4)[OF nothigh False] nothigh show ?thesis
        by (simp add: lex_string_escape_unit consume_def)
    qed
  qed
qed

lemma lex_quote: "lex (quote s @ r) = emit (TString s) (lex r)"
  by (simp add: quote_def lex_string_quote_units)

lemma lex_string_elems:
  "lex r = Some ts \<Longrightarrow>
   lex (stringify_elems (map JStr (x # xs)) @ r) =
     Some (TString x # concat (map (\<lambda>y. [TComma, TString y]) xs) @ ts)"
proof (induction xs arbitrary: x)
  case Nil
  then show ?case using lex_quote[of x r] by (simp add: emit_def)
next
  case (Cons y ys)
  from Cons.IH[OF Cons.prems, of y]
  show ?case using lex_quote[of x "44 # stringify_elems (map JStr (y # ys)) @ r"]
    by (simp add: emit_def)
qed

lemma parse_string_elems:
  "parse_tokens (ArrayNext [] acc) (concat (map (\<lambda>y. [TComma, TString y]) xs) @ [TRBracket]) =
     Some (JArr (acc @ map JStr xs))"
  by (induction xs arbitrary: acc) simp_all

lemma JSON_parse_stringify_strings:
  "JSON_parse (stringify (JArr (map JStr xs))) = Some (JArr (map JStr xs))"
proof (cases xs)
  case Nil
  then show ?thesis by (simp add: JSON_parse_def emit_def)
next
  case (Cons x ys)
  have "lex [93] = Some [TRBracket]" by (simp add: emit_def)
  from lex_string_elems[OF this, of x ys]
  show ?thesis using Cons parse_string_elems[of "[JStr x]" ys]
    by (simp add: JSON_parse_def emit_def)
qed

section \<open>Numbers that read as zero\<close>

text \<open>
  The least literal of seventeen digits that does not read as zero is
  \<open>2.4703282292062328e-324\<close>; it reads as the least positive double.
\<close>

lemma zero_literal_examples:
  "zero_literal (lit ''1e-400'')" "zero_literal (lit ''-0.0'')" "zero_literal (lit ''0e5'')"
  "\<not> zero_literal (lit ''1'')" "\<not> zero_literal (lit ''1e-300'')" "\<not> zero_literal (lit ''0.5E+1'')"
  "zero_literal (lit ''2.4703282292062327e-324'')" "\<not> zero_literal (lit ''2.4703282292062328e-324'')"
  by (simp_all add: zero_literal_def significand_def fraction_digits_def exponent_def mantissa_def
      digits_value_def is_digit_def lit_def)

lemma underflow_is_missing:
  "campos_faltando underflow_body"
  "post_prontuario E db underflow_body = (Send 400 campos_obrigatorios, db)"
  "ident \<noteq> [] \<Longrightarrow> put_prontuario E db ident underflow_body = (Send 400 campos_obrigatorios, db)"
proof -
  have "body_field underflow_body (lit ''nome'') = Some (JNum (lit ''1e-400''))"
    by (simp add: underflow_body_def body_field_def get_prop_def)
  then show "campos_faltando underflow_body"
    by (simp add: campos_faltando_def truthy_opt_def zero_literal_examples)
  then show "post_prontuario E db underflow_body = (Send 400 campos_obrigatorios, db)"
    and "ident \<noteq> [] \<Longrightarrow> put_prontuario E db ident underflow_body = (Send 400 campos_obrigatorios, db)"
    by (simp_all add: post_prontuario_def put_prontuario_def)
qed

section \<open>The response interpreter and the reply of POST /ai-diagnostico\<close>

lemmas json_eval = JSON_parse_def lit_def emit_def consume_def is_digit_def

lemma match_brace_span_eq:
  "match_brace_span raw =
     (if 123 \<in> set raw \<and> last raw = 125 then Some (dropWhile (\<lambda>c. c \<noteq> 123) raw) else None)"
  by (induction raw) auto

lemma ai_diagnostico_answered:
  assumes "snd (ai_diagnostico cfg E fetch db body) = [prompt]"
    and "askOllama fetch prompt = Inr raw"
  shows "fst (ai_diagnostico cfg E fetch db body) =
           (case interpret_raw raw of
              Inl e \<Rightarrow> Fault 502 e
            | Inr sugestao \<Rightarrow>
                Json 200 (JObj [(lit ''sugestao'', sugestao),
                                (lit ''model'', JStr (OLLAMA_MODEL cfg)),
                                (lit ''host'', JStr (OLLAMA_HOST cfg))]))"
  using assms
  by (auto simp: ai_diagnostico_def Let_def split: sum.splits bool.splits)

lemma trim_febre: "trim (lit ''febre'') = lit ''febre''"
  by (simp add: trim_def lit_def is_space_def)

lemma febre_sent:
  "snd (ai_diagnostico cfg E (answering txt) empty_db (Some (JObj [(lit ''sintomas'', JStr (lit ''febre''))])))
     = [febre_prompt]"
proof -
  have a: "body_field (Some (JObj [(lit ''sintomas'', JStr (lit ''febre''))])) (lit ''sintomas'') = Some (JStr (lit ''febre''))"
    by (simp add: body_field_def get_prop_def)
  have b: "\<And>k. k \<noteq> lit ''sintomas'' \<Longrightarrow> body_field (Some (JObj [(lit ''sintomas'', JStr (lit ''febre''))])) k = None"
    by (simp add: body_field_def get_prop_def)
  have k: "lit ''anamnese'' \<noteq> lit ''sintomas''" "lit ''prontuario_id'' \<noteq> lit ''sintomas''"
     "lit ''exames_resumo'' \<noteq> lit ''sintomas''"
    by (simp_all add: lit_def)
  have ne: "lit ''febre'' \<noteq> []" by (simp add: lit_def)
  have v: "nothing_informed (JStr (lit ''febre'')) (JStr []) = Inr False"
    by (simp add: nothing_informed_def js_trim_def trim_febre ne)
  have x: "exames_bloco E empty_db (JStr []) JNull = Inr []"
    by (simp add: exames_bloco_def stored_summary_def)
  have p: "build_prompt (JStr (lit ''febre'')) (JStr []) [] = Inr febre_prompt"
    by (simp add: build_prompt_def js_or_def ne febre_prompt_def)
  show ?thesis
    by (simp add: ai_diagnostico_def a b[OF k(1)] b[OF k(2)] b[OF k(3)] default_to_def v x p
        split: sum.splits)
qed

lemma answering_raw:
  \<open>askOllama (answering (lit ''{"response":"not json at all"}'')) p = Inr (lit ''not json at all'')\<close>
  \<open>askOllama (answering (lit ''{"response":" [1] "}'')) p = Inr (lit ''[1]'')\<close>
  \<open>askOllama (answering (lit ''{"response":"so {}"}'')) p = Inr (lit ''so {}'')\<close>
  \<open>askOllama (answering (lit ''{"response":"{bad}"}'')) p = Inr (lit ''{bad}'')\<close>
  \<open>askOllama (answering (lit ''{"response":""}'')) p = Inr []\<close>
  by (simp_all add: askOllama_def answering_def json_eval get_prop_def default_to_def js_or_def
      js_trim_def trim_def is_space_def)

lemma interpret_examples:
  \<open>interpret_raw (lit ''{"hipoteses":["a"],"gravidade":"baixa"}'') =
     Inr (JObj [(lit ''hipoteses'', JArr [JStr (lit ''a'')]), (lit ''gravidade'', JStr (lit ''baixa''))])\<close>
  \<open>interpret_raw (lit ''noise {"hipoteses":["a"]} trailing'') =
     Inr (JObj [(lit ''texto'', JStr (lit ''noise {"hipoteses":["a"]} trailing''))])\<close>
  \<open>interpret_raw (lit ''noise {"hipoteses":["a"]}'') =
     Inr (JObj [(lit ''hipoteses'', JArr [JStr (lit ''a'')])])\<close>
  \<open>interpret_raw (lit ''not json at all'') =
     Inr (JObj [(lit ''texto'', JStr (lit ''not json at all''))])\<close>
  by (simp_all add: interpret_raw_def fallback_text_def json_eval)

lemma parse_examples:
  \<open>JSON_parse (lit ''not json at all'') = None\<close>
  \<open>JSON_parse (lit ''[1]'') = Some (JArr [JNum (lit ''1'')])\<close>
  \<open>JSON_parse (lit ''so {}'') = None\<close>
  \<open>JSON_parse (lit ''{}'') = Some (JObj [])\<close>
  \<open>JSON_parse (lit ''{bad}'') = None\<close>
  \<open>JSON_parse [] = None\<close>
  by (simp_all add: json_eval lex_number_def lex_minus_def lex_int_def lex_frac_def lex_exp_def)

text \<open>
  C1 (amended). Once the service has answered a prompt with the text \<open>raw\<close>, the
  reply of POST /ai-diagnostico is the 200 with the value of \<open>raw\<close> when strict
  parsing succeeds; when it fails and \<open>raw\<close> has no opening brace or does not end
  with a closing brace, the 200 with \<open>{texto: raw}\<close>, or \<open>{texto: 'sem resposta'}\<close> for
  the empty text; when it fails and the text from the first opening brace to the
  closing brace at the end parses, the 200 with the value of that text.
\<close>

theorem C1_interpreter_fallback:
  assumes "snd (ai_diagnostico cfg E fetch db body) = [prompt]"
    and "askOllama fetch prompt = Inr raw"
  shows "(\<forall>v. JSON_parse raw = Some v \<longrightarrow>
            fst (ai_diagnostico cfg E fetch db body) =
              Json 200 (JObj [(lit ''sugestao'', v), (lit ''model'', JStr (OLLAMA_MODEL cfg)),
                              (lit ''host'', JStr (OLLAMA_HOST cfg))]))
       \<and> (JSON_parse raw = None \<and> \<not> (123 \<in> set raw \<and> last raw = 125) \<longrightarrow>
            fst (ai_diagnostico cfg E fetch db body) =
              Json 200 (JObj [(lit ''sugestao'',
                                 JObj [(lit ''texto'',
                                        JStr (if raw = [] then lit ''sem resposta'' else raw))]),
                              (lit ''model'', JStr (OLLAMA_MODEL cfg)),
                              (lit ''host'', JStr (OLLAMA_HOST cfg))]))
       \<and> (\<forall>v. JSON_parse raw = None \<and> 123 \<in> set raw \<and> last raw = 125
              \<and> JSON_parse (dropWhile (\<lambda>c. c \<noteq> 123) raw) = Some v \<longrightarrow>
            fst (ai_diagnostico cfg E fetch db body) =
              Json 200 (JObj [(lit ''sugestao'', v), (lit ''model'', JStr (OLLAMA_MODEL cfg)),
                              (lit ''host'', JStr (OLLAMA_HOST cfg))]))"
  unfolding ai_diagnostico_answered[OF assms]
  by (simp add: interpret_raw_def match_brace_span_eq fallback_text_def)

theorem C1_interpreter_fallback_witness:
  \<open>fst (ai_diagnostico local_config plain_engine (answering (lit ''{"response":" [1] "}'')) empty_db
          (Some (JObj [(lit ''sintomas'', JStr (lit ''febre''))]))) =
     Json 200 (JObj [(lit ''sugestao'', JArr [JNum (lit ''1'')]),
                     (lit ''model'', JStr (lit ''deepseek-r1:8b'')),
                     (lit ''host'', JStr (lit ''http://127.0.0.1:11434''))])
   \<and> fst (ai_diagnostico local_config plain_engine (answering (lit ''{"response":"not json at all"}''))
          empty_db (Some (JObj [(lit ''sintomas'', JStr (lit ''febre''))]))) =
     Json 200 (JObj [(lit ''sugestao'', JObj [(lit ''texto'', JStr (lit ''not json at all''))]),
                     (lit ''model'', JStr (lit ''deepseek-r1:8b'')),
                     (lit ''host'', JStr (lit ''http://127.0.0.1:11434''))])
   \<and> fst (ai_diagnostico local_config plain_engine (answering (lit ''{"response":"so {}"}''))
          empty_db (Some (JObj [(lit ''sintomas'', JStr (lit ''febre''))]))) =
     Json 200 (JObj [(lit ''sugestao'', JObj []),
                     (lit ''model'', JStr (lit ''deepseek-r1:8b'')),
                     (lit ''host'', JStr (lit ''http://127.0.0.1:11434''))])\<close>
proof -
  have span: "dropWhile (\<lambda>c. c \<noteq> 123) (lit ''so {}'') = lit ''{}''"
    "123 \<in> set (lit ''so {}'')" "last (lit ''so {}'') = 125"
    "\<not> (123 \<in> set (lit ''not json at all'') \<and> last (lit ''not json at all'') = 125)"
    "lit ''not json at all'' \<noteq> []"
    by (simp_all add: lit_def)
  show ?thesis
    using C1_interpreter_fallback[OF febre_sent answering_raw(2), of local_config plain_engine]
      C1_interpreter_fallback[OF febre_sent answering_raw(1), of local_config plain_engine]
      C1_interpreter_fallback[OF febre_sent answering_raw(3), of local_config plain_engine]
    by (simp add: parse_examples span local_config_def)
qed

theorem C1_interpreter_fallback_counterexample:
  \<open>fst (ai_diagnostico local_config plain_engine (answering (lit ''{"response":""}'')) empty_db
          (Some (JObj [(lit ''sintomas'', JStr (lit ''febre''))]))) =
     Json 200 (JObj [(lit ''sugestao'', JObj [(lit ''texto'', JStr (lit ''sem resposta''))]),
                     (lit ''model'', JStr (lit ''deepseek-r1:8b'')),
                     (lit ''host'', JStr (lit ''http://127.0.0.1:11434''))])
   \<and> fallback_text [] \<noteq> JObj [(lit ''texto'', JStr [])]
   \<and> fst (ai_diagnostico local_config plain_engine (answering (lit ''{"response":"{bad}"}'')) empty_db
          (Some (JObj [(lit ''sintomas'', JStr (lit ''febre''))]))) = Fault 502 SyntaxError\<close>
proof -
  have a: "interpret_raw [] = Inr (JObj [(lit ''texto'', JStr (lit ''sem resposta''))])"
    by (simp add: interpret_raw_def fallback_text_def parse_examples)
  have b: \<open>interpret_raw (lit ''{bad}'') = Inl SyntaxError\<close>
    by (simp add: interpret_raw_def json_eval)
  show ?thesis
    by (simp add: ai_diagnostico_answered[OF febre_sent answering_raw(5)]
        ai_diagnostico_answered[OF febre_sent answering_raw(4)] a b local_config_def)
      (simp add: fallback_text_def lit_def)
qed

text \<open>
  C2 (amended). The interpreter gives the first input's object as parsed and
  \<open>{texto: 'not json at all'}\<close> for the third. For the second input, where text
  follows the object, no closing brace ends the text, nothing is extracted and the
  result is \<open>{texto: <the whole input>}\<close>; with the trailing text removed the object
  is extracted and parsed.
\<close>

theorem C2_interpreter_examples:
  \<open>interpret_raw (lit ''{"hipoteses":["a"],"gravidade":"baixa"}'') =
     Inr (JObj [(lit ''hipoteses'', JArr [JStr (lit ''a'')]), (lit ''gravidade'', JStr (lit ''baixa''))])
   \<and> interpret_raw (lit ''noise {"hipoteses":["a"]} trailing'') =
     Inr (JObj [(lit ''texto'', JStr (lit ''noise {"hipoteses":["a"]} trailing''))])
   \<and> interpret_raw (lit ''noise {"hipoteses":["a"]}'') =
     Inr (JObj [(lit ''hipoteses'', JArr [JStr (lit ''a'')])])
   \<and> interpret_raw (lit ''not json at all'') =
     Inr (JObj [(lit ''texto'', JStr (lit ''not json at all''))])\<close>
  by (simp only: interpret_examples simp_thms)

theorem C2_interpreter_examples_counterexample:
  \<open>interpret_raw (lit ''noise {"hipoteses":["a"]} trailing'') \<noteq>
     Inr (JObj [(lit ''hipoteses'', JArr [JStr (lit ''a'')])])\<close>
  unfolding interpret_examples(2) by (simp add: lit_def)

section \<open>The input check of POST /ai-diagnostico\<close>

lemma all_dropWhile: "(\<forall>x\<in>set (dropWhile P s). P x) \<longleftrightarrow> (\<forall>x\<in>set s. P x)"
  by (induction s) auto

lemma trim_empty_iff: "trim s = [] \<longleftrightarrow> list_all is_space s"
  by (simp add: trim_def dropWhile_eq_Nil_conv list_all_iff all_dropWhile)

lemma js_trim_blank:
  "absent_or_blank v \<Longrightarrow> js_trim (default_to (JStr []) v) = Inr []"
  by (auto simp: absent_or_blank_def js_trim_def default_to_def trim_empty_iff
      split: option.splits jsval.splits)

lemma js_trim_not_a_string:
  "not_a_string v \<Longrightarrow> js_trim (default_to (JStr []) v) = Inl TypeError"
  by (auto simp: not_a_string_def js_trim_def default_to_def split: option.splits jsval.splits)

lemma js_trim_empty_blank:
  "js_trim (default_to (JStr []) v) = Inr [] \<Longrightarrow> absent_or_blank v"
  by (auto simp: absent_or_blank_def js_trim_def default_to_def trim_empty_iff
      split: option.splits jsval.splits)

lemma status_400_only_from_check:
  assumes "status_of (fst (ai_diagnostico cfg E fetch db body)) = 400"
  shows "nothing_informed (default_to (JStr []) (body_field body (lit ''sintomas'')))
           (default_to (JStr []) (body_field body (lit ''anamnese''))) = Inr True"
  using assms
  by (auto simp: ai_diagnostico_def Let_def split: sum.splits bool.splits)

text \<open>
  C3. When \<open>sintomas\<close> and \<open>anamnese\<close> are each absent from the body or a string of
  white space only, POST /ai-diagnostico answers 400 with the message asking for one
  of them, and no prompt is sent to the inference service.
\<close>

theorem C3_nothing_informed_400:
  assumes "absent_or_blank (body_field body (lit ''sintomas''))"
    and "absent_or_blank (body_field body (lit ''anamnese''))"
  shows "ai_diagnostico cfg E fetch db body = (informe_ao_menos, [])
       \<and> status_of informe_ao_menos = 400"
  by (simp add: ai_diagnostico_def nothing_informed_def js_trim_blank[OF assms(1)]
      js_trim_blank[OF assms(2)] informe_ao_menos_def)

theorem C3_nothing_informed_400_witness:
  "ai_diagnostico local_config plain_engine (answering (lit ''{}'')) empty_db
     (Some (JObj [(lit ''sintomas'', JStr [32, 10, 9]), (lit ''prontuario_id'', JNum (lit ''1''))]))
     = (informe_ao_menos, [])
   \<and> ai_diagnostico local_config plain_engine (answering (lit ''{}'')) empty_db None
     = (informe_ao_menos, [])"
proof -
  have a: "absent_or_blank (body_field (Some (JObj [(lit ''sintomas'', JStr [32, 10, 9]), (lit ''prontuario_id'', JNum (lit ''1''))])) (lit ''sintomas''))"
    "absent_or_blank (body_field (Some (JObj [(lit ''sintomas'', JStr [32, 10, 9]), (lit ''prontuario_id'', JNum (lit ''1''))])) (lit ''anamnese''))"
    "\<And>k. absent_or_blank (body_field None k)"
    by (simp_all add: absent_or_blank_def body_field_def get_prop_def lit_def is_space_def)
  show ?thesis
    using C3_nothing_informed_400[OF a(1) a(2)] C3_nothing_informed_400[OF a(3) a(3)]
    by simp
qed

text \<open>
  C10 (amended). When \<open>sintomas\<close> is present and not a string, or \<open>sintomas\<close> is
  absent or blank and \<open>anamnese\<close> is present and not a string, the input check throws,
  the route's catch answers 502 and no prompt is sent. When \<open>sintomas\<close> is a string
  that is not blank the check passes without looking at \<open>anamnese\<close>, whatever its
  type, and the answer is not the 400. The 400 is answered only when both fields are
  absent or blank strings.
\<close>

theorem C10_non_string_input:
  "(not_a_string (body_field body (lit ''sintomas'')) \<longrightarrow>
      ai_diagnostico cfg E fetch db body = (Fault 502 TypeError, []))
   \<and> (absent_or_blank (body_field body (lit ''sintomas''))
        \<and> not_a_string (body_field body (lit ''anamnese'')) \<longrightarrow>
      ai_diagnostico cfg E fetch db body = (Fault 502 TypeError, []))
   \<and> (\<forall>s. body_field body (lit ''sintomas'') = Some (JStr s) \<and> trim s \<noteq> [] \<longrightarrow>
        (\<forall>anamnese. nothing_informed (JStr s) anamnese = Inr False)
        \<and> status_of (fst (ai_diagnostico cfg E fetch db body)) \<noteq> 400)
   \<and> (status_of (fst (ai_diagnostico cfg E fetch db body)) = 400 \<longrightarrow>
        absent_or_blank (body_field body (lit ''sintomas''))
        \<and> absent_or_blank (body_field body (lit ''anamnese'')))"
proof (intro conjI impI allI)
  assume "not_a_string (body_field body (lit ''sintomas''))"
  then show "ai_diagnostico cfg E fetch db body = (Fault 502 TypeError, [])"
    by (simp add: ai_diagnostico_def nothing_informed_def js_trim_not_a_string)
next
  assume "absent_or_blank (body_field body (lit ''sintomas''))
        \<and> not_a_string (body_field body (lit ''anamnese''))"
  then show "ai_diagnostico cfg E fetch db body = (Fault 502 TypeError, [])"
    by (simp add: ai_diagnostico_def nothing_informed_def js_trim_not_a_string js_trim_blank)
next
  fix s anamnese
  assume "body_field body (lit ''sintomas'') = Some (JStr s) \<and> trim s \<noteq> []"
  then show "nothing_informed (JStr s) anamnese = Inr False"
    by (simp add: nothing_informed_def js_trim_def)
next
  fix s
  assume a: "body_field body (lit ''sintomas'') = Some (JStr s) \<and> trim s \<noteq> []"
  show "status_of (fst (ai_diagnostico cfg E fetch db body)) \<noteq> 400"
  proof
    assume "status_of (fst (ai_diagnostico cfg E fetch db body)) = 400"
    from status_400_only_from_check[OF this] a show False
      by (simp add: nothing_informed_def js_trim_def default_to_def)
  qed
next
  assume "status_of (fst (ai_diagnostico cfg E fetch db body)) = 400"
  from status_400_only_from_check[OF this]
  have "js_trim (default_to (JStr []) (body_field body (lit ''sintomas''))) = Inr []
      \<and> js_trim (default_to (JStr []) (body_field body (lit ''anamnese''))) = Inr []"
    by (auto simp: nothing_informed_def split: sum.splits if_splits)
  then show "absent_or_blank (body_field body (lit ''sintomas''))"
    and "absent_or_blank (body_field body (lit ''anamnese''))"
    by (simp_all add: js_trim_empty_blank)
qed

lemma febre_5_run:
  \<open>ai_diagnostico local_config plain_engine (answering (lit ''{"response":"{}"}'')) empty_db
      (Some (JObj [(lit ''sintomas'', JStr (lit ''febre'')), (lit ''anamnese'', JNum (lit ''5''))]))
   = (Json 200 (JObj [(lit ''sugestao'', JObj []),
                      (lit ''model'', JStr (lit ''deepseek-r1:8b'')),
                      (lit ''host'', JStr (lit ''http://127.0.0.1:11434''))]),
      [febre_5_prompt])\<close>
proof -
  let ?body = "Some (JObj [(lit ''sintomas'', JStr (lit ''febre'')), (lit ''anamnese'', JNum (lit ''5''))])"
  have f: "body_field ?body (lit ''sintomas'') = Some (JStr (lit ''febre''))"
    "body_field ?body (lit ''anamnese'') = Some (JNum (lit ''5''))"
    "body_field ?body (lit ''prontuario_id'') = None"
    "body_field ?body (lit ''exames_resumo'') = None"
    by (simp_all add: body_field_def get_prop_def lit_def)
  have ne: "lit ''febre'' \<noteq> []" by (simp add: lit_def)
  have v: "nothing_informed (JStr (lit ''febre'')) (JNum (lit ''5'')) = Inr False"
    by (simp add: nothing_informed_def js_trim_def trim_febre ne)
  have x: "exames_bloco plain_engine empty_db (JStr []) JNull = Inr []"
    by (simp add: exames_bloco_def stored_summary_def)
  have t: "\<not> zero_literal (lit ''5'')"
    by (simp add: zero_literal_def significand_def fraction_digits_def exponent_def mantissa_def
        digits_value_def is_digit_def lit_def)
  have p: "build_prompt (JStr (lit ''febre'')) (JNum (lit ''5'')) [] = Inr febre_5_prompt"
    by (simp add: build_prompt_def js_or_def ne t febre_5_prompt_def)
  have r: \<open>askOllama (answering (lit ''{"response":"{}"}'')) febre_5_prompt = Inr (lit ''{}'')\<close>
    by (simp add: askOllama_def answering_def json_eval get_prop_def default_to_def js_or_def
        js_trim_def trim_def is_space_def)
  have i: "interpret_raw (lit ''{}'') = Inr (JObj [])"
    by (simp add: interpret_raw_def parse_examples)
  show ?thesis
    by (simp add: ai_diagnostico_def f default_to_def v x p r i local_config_def)
qed

theorem C10_non_string_input_counterexample:
  \<open>not_a_string (body_field
      (Some (JObj [(lit ''sintomas'', JStr (lit ''febre'')), (lit ''anamnese'', JNum (lit ''5''))]))
      (lit ''anamnese''))
   \<and> status_of (fst (ai_diagnostico local_config plain_engine (answering (lit ''{"response":"{}"}''))
        empty_db
        (Some (JObj [(lit ''sintomas'', JStr (lit ''febre'')), (lit ''anamnese'', JNum (lit ''5''))]))))
      = 200
   \<and> snd (ai_diagnostico local_config plain_engine (answering (lit ''{"response":"{}"}''))
        empty_db
        (Some (JObj [(lit ''sintomas'', JStr (lit ''febre'')), (lit ''anamnese'', JNum (lit ''5''))])))
      = [febre_5_prompt]\<close>
  unfolding febre_5_run
  by (simp add: not_a_string_def body_field_def get_prop_def lit_def)

theorem C10_non_string_input_witness:
  \<open>ai_diagnostico local_config plain_engine (answering (lit ''{}'')) empty_db
      (Some (JObj [(lit ''sintomas'', JNum (lit ''5''))])) = (Fault 502 TypeError, [])
   \<and> ai_diagnostico local_config plain_engine (answering (lit ''{}'')) empty_db
      (Some (JObj [(lit ''anamnese'', JObj [])])) = (Fault 502 TypeError, [])
   \<and> status_of (fst (ai_diagnostico local_config plain_engine (answering (lit ''{"response":"{}"}''))
        empty_db
        (Some (JObj [(lit ''sintomas'', JStr (lit ''febre'')), (lit ''anamnese'', JNum (lit ''5''))]))))
      \<noteq> 400
   \<and> absent_or_blank (body_field (Some (JObj [])) (lit ''sintomas''))
   \<and> absent_or_blank (body_field (Some (JObj [])) (lit ''anamnese''))\<close>
proof -
  have a: "not_a_string (body_field (Some (JObj [(lit ''sintomas'', JNum (lit ''5''))])) (lit ''sintomas''))"
    by (simp add: not_a_string_def body_field_def get_prop_def)
  have b: "absent_or_blank (body_field (Some (JObj [(lit ''anamnese'', JObj [])])) (lit ''sintomas''))
         \<and> not_a_string (body_field (Some (JObj [(lit ''anamnese'', JObj [])])) (lit ''anamnese''))"
    by (simp add: not_a_string_def absent_or_blank_def body_field_def get_prop_def lit_def)
  have c: "body_field (Some (JObj [(lit ''sintomas'', JStr (lit ''febre'')), (lit ''anamnese'', JNum (lit ''5''))]))
             (lit ''sintomas'') = Some (JStr (lit ''febre'')) \<and> trim (lit ''febre'') \<noteq> []"
    by (simp add: body_field_def get_prop_def trim_febre) (simp add: lit_def)
  have d: "status_of (fst (ai_diagnostico local_config plain_engine (answering (lit ''{}'')) empty_db
             (Some (JObj [])))) = 400"
    by (simp add: ai_diagnostico_def body_field_def get_prop_def default_to_def nothing_informed_def
        js_trim_def trim_def)
  show ?thesis
    using C10_non_string_input[of "Some (JObj [(lit ''sintomas'', JNum (lit ''5''))])"
        local_config plain_engine "answering (lit ''{}'')" empty_db]
      C10_non_string_input[of "Some (JObj [(lit ''anamnese'', JObj [])])"
        local_config plain_engine "answering (lit ''{}'')" empty_db]
      C10_non_string_input[of "Some (JObj [(lit ''sintomas'', JStr (lit ''febre'')), (lit ''anamnese'', JNum (lit ''5''))])"
        local_config plain_engine \<open>answering (lit ''{"response":"{}"}'')\<close> empty_db]
      C10_non_string_input[of "Some (JObj [])"
        local_config plain_engine "answering (lit ''{}'')" empty_db]
      a b c d
    by blast
qed

section \<open>The exam summary: order and contents\<close>

lemma mset_insert_desc: "mset (insert_desc key x xs) = add_mset x (mset xs)"
  by (induction xs) simp_all

lemma mset_order_desc: "mset (order_desc key xs) = mset xs"
  by (induction xs) (simp_all add: order_desc_def mset_insert_desc)

lemma set_insert_desc: "set (insert_desc key x xs) = insert x (set xs)"
  by (induction xs) auto

lemma sorted_insert_desc:
  "sorted_wrt (\<lambda>a b. key b \<le> key a) xs \<Longrightarrow> sorted_wrt (\<lambda>a b. key b \<le> key a) (insert_desc key x xs)"
proof (induction xs)
  case Nil
  show ?case by simp
next
  case (Cons y ys)
  show ?case
  proof (cases "key y \<le> key x")
    case True
    with Cons.prems show ?thesis by (auto intro: order_trans)
  next
    case False
    with Cons show ?thesis by (auto simp: set_insert_desc)
  qed
qed

lemma filter_insert_desc:
  "filter (\<lambda>r. key r = k) (insert_desc key x xs) =
     (if key x = k then x # filter (\<lambda>r. key r = k) xs else filter (\<lambda>r. key r = k) xs)"
  by (induction xs) auto

lemma filter_order_desc:
  "filter (\<lambda>r. key r = k) (order_desc key xs) = filter (\<lambda>r. key r = k) xs"
  by (induction xs) (simp_all add: order_desc_def filter_insert_desc)

lemma sorted_order_desc: "sorted_wrt (\<lambda>a b. key b \<le> key a) (order_desc key xs)"
proof (induction xs)
  case Nil
  show ?case by (simp add: order_desc_def)
next
  case (Cons x xs)
  then show ?case using sorted_insert_desc[of key "order_desc key xs" x]
    by (simp add: order_desc_def)
qed

lemma exam_parts_attributes:
  "exam_parts r =
     map (\<lambda>(l, c). l @ the c) (filter (\<lambda>(l, c). present c) (exam_attributes r))
     @ (if present (e_arquivo_path r) \<and> \<not> present (e_resultado_texto r) then [interpret_note] else [])"
  by (simp add: exam_parts_def exam_attributes_def labelled_def present_def split: option.splits)

lemma note_not_labelled:
  "interpret_note \<notin> set (labelled (lit ''Tipo: '') c)"
  "interpret_note \<notin> set (labelled (lit ''Data de anexo: '') c)"
  "interpret_note \<notin> set (labelled (lit ''Resultado textual: '') c)"
  "interpret_note \<notin> set (labelled (lit ''Obs: '') c)"
  "interpret_note \<notin> set (labelled (lit ''Arquivo: '') c)"
  by (simp_all add: labelled_def interpret_note_def lit_def split: option.splits)

lemma note_in_parts:
  "interpret_note \<in> set (exam_parts r) \<longleftrightarrow> present (e_arquivo_path r) \<and> \<not> present (e_resultado_texto r)"
  by (simp add: exam_parts_def note_not_labelled)


lemma two_exams_summary:
  "fetchExamsSummary plain_engine two_exams_db (JNum (lit ''1'')) =
     lit ''- Tipo: RX | Arquivo: /uploads/1__a.png | Sem laudo textual: interpretar arquivo anexado.''
     @ [10]
     @ lit ''- Tipo: Hemograma | Data de anexo: 2024-01-02 | Resultado textual: ok''"
  by (simp add: fetchExamsSummary_def exams_of_def two_exams_db_def plain_engine_def read_decimal_def is_digit_def order_desc_def
      exam_line_def exam_parts_def labelled_def present_def interpret_note_def lit_def)

lemma same_second_exames:
  "exames same_second_db =
     [\<lparr>e_id = 1, e_prontuario_id = 1, e_tipo = Some (lit ''Hemograma''), e_observacoes = Some [],
       e_arquivo_path = None, e_resultado_texto = Some (lit ''primeiro''),
       e_data_resultado = None, e_created_at = lit ''2024-01-04 08:00:00''\<rparr>,
      \<lparr>e_id = 2, e_prontuario_id = 1, e_tipo = Some (lit ''Hemograma''), e_observacoes = Some [],
       e_arquivo_path = None, e_resultado_texto = Some (lit ''segundo''),
       e_data_resultado = None, e_created_at = lit ''2024-01-04 08:00:00''\<rparr>]"
proof -
  have k: "integer_of plain_engine (JNum (lit ''1'')) = Some 1"
    by (simp add: plain_engine_def read_decimal_def is_digit_def lit_def)
  have t: "truthy (JNum (lit ''1''))" by (simp add: zero_literal_examples)
  have tr: "trim (lit ''primeiro'') \<noteq> []" "trim (lit ''segundo'') \<noteq> []"
    by (simp_all add: trim_def lit_def is_space_def)
  have d: "data_final primeiro_body = JStr []" "data_final segundo_body = JStr []"
    by (simp_all add: data_final_def primeiro_body_def segundo_body_def body_field_def get_prop_def
        default_to_def js_or_def lit_def)
  have f1: "body_field primeiro_body (lit ''prontuario_id'') = Some (JNum (lit ''1''))"
    "body_field primeiro_body (lit ''resultado_texto'') = Some (JStr (lit ''primeiro''))"
    "body_field primeiro_body (lit ''tipo'') = Some (JStr (lit ''Hemograma''))"
    "body_field primeiro_body (lit ''observacoes'') = None"
    by (simp_all add: primeiro_body_def body_field_def get_prop_def lit_def)
  have f2: "body_field segundo_body (lit ''prontuario_id'') = Some (JNum (lit ''1''))"
    "body_field segundo_body (lit ''resultado_texto'') = Some (JStr (lit ''segundo''))"
    "body_field segundo_body (lit ''tipo'') = Some (JStr (lit ''Hemograma''))"
    "body_field segundo_body (lit ''observacoes'') = None"
    by (simp_all add: segundo_body_def body_field_def get_prop_def lit_def)
  show ?thesis
    by (simp add: same_second_db_def exames_texto_def f1 f2 truthy_opt_def t tr d default_to_def
        insert_exame_def k js_or_def sql_text_def Let_def one_record_db_def next_id_def
        zero_literal_examples)
qed

lemma same_second_summary:
  "fetchExamsSummary plain_engine same_second_db (JNum (lit ''1'')) =
     lit ''- Tipo: Hemograma | Resultado textual: primeiro'' @ [10]
     @ lit ''- Tipo: Hemograma | Resultado textual: segundo''"
proof -
  have k: "integer_of plain_engine (JNum (lit ''1'')) = Some 1"
    by (simp add: plain_engine_def read_decimal_def is_digit_def lit_def)
  show ?thesis
    by (simp add: fetchExamsSummary_def exams_of_def same_second_exames k order_desc_def
        exam_line_def exam_parts_def labelled_def present_def)
      (simp add: lit_def)
qed

text \<open>
  C4 (amended). For every record id the summary is the lines of that record's stored
  exams joined by line feeds, one entry per exam, by descending \<open>created_at\<close>, the
  time of the insert to the second as text; exams with the same \<open>created_at\<close> come in
  the order they were created, the earlier first. A line is \<open>- \<close> and, joined with
  \<open> | \<close>, the labelled attributes that are present (not NULL, not empty) in the order
  type, attachment date, textual result, observations, file reference, followed by
  the note asking to read the attached file exactly when the file reference is
  present and the textual result is not. With no exam of the record the summary is
  the empty string.
\<close>

theorem C4_exam_summary:
  "fetchExamsSummary E db prontuario_id = join [10] (map exam_line (exams_of E db prontuario_id))
   \<and> mset (exams_of E db prontuario_id) =
       mset (filter (\<lambda>r. integer_of E prontuario_id = Some (e_prontuario_id r)) (exames db))
   \<and> sorted_wrt (\<lambda>a b. e_created_at b \<le> e_created_at a) (exams_of E db prontuario_id)
   \<and> (\<forall>t. filter (\<lambda>r. e_created_at r = t) (exams_of E db prontuario_id) =
          filter (\<lambda>r. e_created_at r = t)
            (filter (\<lambda>r. integer_of E prontuario_id = Some (e_prontuario_id r)) (exames db)))
   \<and> (\<forall>r. exam_line r =
          lit ''- '' @ join (lit '' | '')
            (map (\<lambda>(label, col). label @ the col)
               (filter (\<lambda>(label, col). present col) (exam_attributes r))
             @ (if present (e_arquivo_path r) \<and> \<not> present (e_resultado_texto r)
                then [interpret_note] else [])))
   \<and> (\<forall>r. interpret_note \<in> set (exam_parts r) \<longleftrightarrow>
          present (e_arquivo_path r) \<and> \<not> present (e_resultado_texto r))
   \<and> (filter (\<lambda>r. integer_of E prontuario_id = Some (e_prontuario_id r)) (exames db) = [] \<longrightarrow>
        fetchExamsSummary E db prontuario_id = [])"
proof (intro conjI allI impI)
  show "fetchExamsSummary E db prontuario_id = join [10] (map exam_line (exams_of E db prontuario_id))"
    by (simp add: fetchExamsSummary_def)
  show "mset (exams_of E db prontuario_id) =
       mset (filter (\<lambda>r. integer_of E prontuario_id = Some (e_prontuario_id r)) (exames db))"
    by (simp only: exams_of_def mset_order_desc)
  show "sorted_wrt (\<lambda>a b. e_created_at b \<le> e_created_at a) (exams_of E db prontuario_id)"
    by (simp only: exams_of_def sorted_order_desc)
next
  fix t
  show "filter (\<lambda>r. e_created_at r = t) (exams_of E db prontuario_id) =
          filter (\<lambda>r. e_created_at r = t)
            (filter (\<lambda>r. integer_of E prontuario_id = Some (e_prontuario_id r)) (exames db))"
    by (simp only: exams_of_def filter_order_desc)
next
  fix r
  show "exam_line r =
          lit ''- '' @ join (lit '' | '')
            (map (\<lambda>(label, col). label @ the col)
               (filter (\<lambda>(label, col). present col) (exam_attributes r))
             @ (if present (e_arquivo_path r) \<and> \<not> present (e_resultado_texto r)
                then [interpret_note] else []))"
    by (simp only: exam_line_def exam_parts_attributes)
  show "interpret_note \<in> set (exam_parts r) \<longleftrightarrow>
          present (e_arquivo_path r) \<and> \<not> present (e_resultado_texto r)"
    by (rule note_in_parts)
next
  assume "filter (\<lambda>r. integer_of E prontuario_id = Some (e_prontuario_id r)) (exames db) = []"
  then show "fetchExamsSummary E db prontuario_id = []"
    by (simp add: fetchExamsSummary_def exams_of_def order_desc_def)
qed

theorem C4_exam_summary_counterexample:
  "map e_id (exames same_second_db) = [1, 2]
   \<and> map e_created_at (exames same_second_db) =
       [lit ''2024-01-04 08:00:00'', lit ''2024-01-04 08:00:00'']
   \<and> fetchExamsSummary plain_engine same_second_db (JNum (lit ''1'')) =
       lit ''- Tipo: Hemograma | Resultado textual: primeiro'' @ [10]
       @ lit ''- Tipo: Hemograma | Resultado textual: segundo''"
  by (simp only: same_second_summary simp_thms) (simp add: same_second_exames)

theorem C4_exam_summary_witness:
  "fetchExamsSummary plain_engine two_exams_db (JNum (lit ''2'')) = []
   \<and> fetchExamsSummary plain_engine two_exams_db (JNum (lit ''1'')) =
       lit ''- Tipo: RX | Arquivo: /uploads/1__a.png | Sem laudo textual: interpretar arquivo anexado.''
       @ [10]
       @ lit ''- Tipo: Hemograma | Data de anexo: 2024-01-02 | Resultado textual: ok''"
proof -
  have "filter (\<lambda>r. integer_of plain_engine (JNum (lit ''2'')) = Some (e_prontuario_id r))
          (exames two_exams_db) = []"
    by (simp add: plain_engine_def read_decimal_def is_digit_def two_exams_db_def lit_def)
  with C4_exam_summary[of plain_engine two_exams_db "JNum (lit ''2'')"] two_exams_summary
  show ?thesis by blast
qed

section \<open>Creating and listing records\<close>

lemma fold_max_Max: "fold max xs (s::nat) = Max (insert s (set xs))"
  using Max.set_eq_fold[of s xs] by simp

lemma fold_max_ge: "s \<le> fold max xs (s::nat)" "\<And>x. x \<in> set xs \<Longrightarrow> x \<le> fold max xs s"
  by (simp_all add: fold_max_Max)

lemma next_id_fresh: "x \<in> set ids \<Longrightarrow> x < next_id seq ids"
  using fold_max_ge(2)[of x ids seq] by (simp add: next_id_def)

lemma next_id_step: "next_id (next_id seq ids) (ids @ [next_id seq ids]) = Suc (next_id seq ids)"
proof -
  have "fold max ids (Suc (fold max ids seq)) = Suc (fold max ids seq)"
  proof -
    have "\<forall>x\<in>set ids. x \<le> Suc (fold max ids seq)"
      using fold_max_ge(2)[of _ ids seq] by (auto intro: le_SucI)
    then show ?thesis
      by (simp add: fold_max_Max max_absorb2 Max_insert2)
  qed
  then show ?thesis by (simp add: next_id_def)
qed

lemma post_prontuario_valid:
  assumes "\<not> campos_faltando body"
  shows "post_prontuario E db body =
     (created (next_id (prontuarios_seq db) (map p_id (prontuarios db))),
      db\<lparr>prontuarios := prontuarios db
            @ [row_of_body E (next_id (prontuarios_seq db) (map p_id (prontuarios db))) body],
         prontuarios_seq := next_id (prontuarios_seq db) (map p_id (prontuarios db))\<rparr>)"
  using assms by (simp add: post_prontuario_def created_def Let_def)

lemma p_id_row_of_body [simp]: "p_id (row_of_body E k body) = k"
  by (simp add: row_of_body_def)

lemma post_all_valid:
  assumes "list_all2 valid_creation bodies xss"
  shows "fst (post_all E db bodies) =
           map created [next_id (prontuarios_seq db) (map p_id (prontuarios db))
                        ..< next_id (prontuarios_seq db) (map p_id (prontuarios db)) + length bodies]
       \<and> prontuarios (snd (post_all E db bodies)) =
           prontuarios db
           @ map2 (row_of_body E)
               [next_id (prontuarios_seq db) (map p_id (prontuarios db))
                ..< next_id (prontuarios_seq db) (map p_id (prontuarios db)) + length bodies]
               bodies"
  using assms
proof (induction bodies xss arbitrary: db rule: list_all2_induct)
  case Nil
  show ?case by simp
next
  case (Cons body bodies xs xss)
  let ?b = "next_id (prontuarios_seq db) (map p_id (prontuarios db))"
  let ?db = "db\<lparr>prontuarios := prontuarios db @ [row_of_body E ?b body], prontuarios_seq := ?b\<rparr>"
  have v: "\<not> campos_faltando body" using Cons.hyps(1) by (simp add: valid_creation_def)
  have step: "next_id (prontuarios_seq ?db) (map p_id (prontuarios ?db)) = Suc ?b"
    by (simp add: next_id_step)
  have upt: "[?b ..< ?b + length (body # bodies)] = ?b # [Suc ?b ..< Suc ?b + length bodies]"
    using upt_conv_Cons[of ?b "?b + length (body # bodies)"] by (simp del: upt_Suc)
  have run: "post_all E db (body # bodies) =
      (created ?b # fst (post_all E ?db bodies), snd (post_all E ?db bodies))"
    by (simp add: post_prontuario_valid[OF v] split: prod.splits)
  from Cons.IH[of ?db] show ?case
    unfolding run upt step by simp
qed

lemma insert_desc_past:
  "\<forall>y\<in>set ys. key x < key y \<Longrightarrow> insert_desc key x (ys @ zs) = ys @ insert_desc key x zs"
  by (induction ys) auto

lemma foldr_insert_desc_past:
  "\<forall>x\<in>set xs. \<forall>y\<in>set ys. key x < key y \<Longrightarrow>
   foldr (insert_desc key) xs (ys @ zs) = ys @ foldr (insert_desc key) xs zs"
  by (induction xs) (simp_all add: insert_desc_past)

lemma order_desc_increasing:
  "sorted_wrt (\<lambda>a b. key a < key b) xs \<Longrightarrow> order_desc key xs = rev xs"
proof (induction xs)
  case Nil
  show ?case by (simp add: order_desc_def)
next
  case (Cons x xs)
  then have "\<forall>y\<in>set (rev xs). key x < key y" by simp
  from insert_desc_past[OF this, of "[]"] Cons show ?case
    by (simp add: order_desc_def)
qed

lemma order_desc_append_newer:
  assumes "sorted_wrt (\<lambda>a b. key a < key b) new"
    and "\<forall>x\<in>set old. \<forall>y\<in>set new. key x < key y"
  shows "order_desc key (old @ new) = rev new @ order_desc key old"
proof -
  have "\<forall>x\<in>set old. \<forall>y\<in>set (rev new). key x < key y"
    using assms(2) by simp
  from foldr_insert_desc_past[OF this, of "[]"] order_desc_increasing[OF assms(1)]
  show ?thesis by (simp add: order_desc_def)
qed

lemma decode_exames_strings:
  "decode_exames (examesStr (JArr (map JStr xs))) = JArr (map JStr xs)"
proof -
  have "stringify (JArr (map JStr xs)) \<noteq> []" by simp
  then show ?thesis
    by (simp add: decode_exames_def examesStr_def JSON_parse_stringify_strings del: stringify.simps)
qed

lemma decode_created_row:
  "valid_creation body xs \<Longrightarrow>
   p_exames_solicitados (decode_row (row_of_body E k body)) = JArr (map JStr xs)"
  by (simp add: valid_creation_def decode_row_def row_of_body_def default_to_def decode_exames_strings)


lemma p_id_decode_row [simp]: "p_id (decode_row r) = p_id r"
  by (simp add: decode_row_def)

lemma ids_of_new_rows:
  "length ks = length bodies \<Longrightarrow> map p_id (map2 (row_of_body E) ks bodies) = ks"
  by (induction ks bodies rule: list_induct2) simp_all

lemma exames_of_new_rows:
  "list_all2 valid_creation bodies xss \<Longrightarrow> length ks = length bodies \<Longrightarrow>
   map (\<lambda>r. p_exames_solicitados (decode_row r)) (map2 (row_of_body E) ks bodies) =
     map (\<lambda>xs. JArr (map JStr xs)) xss"
proof (induction bodies xss arbitrary: ks rule: list_all2_induct)
  case Nil
  then show ?case by simp
next
  case (Cons body bodies xs xss)
  then obtain k ks' where ks: "ks = k # ks'" "length ks' = length bodies"
    by (cases ks) auto
  from Cons.IH[OF ks(2)] decode_created_row[OF Cons.hyps(1), of E k] ks(1)
  show ?case by simp
qed

text \<open>
  C5. For every sequence of valid creations on any store, the ids returned are
  \<open>b, b + 1, ...\<close> in the order of creation, where \<open>b\<close> is larger than every id
  stored before. GET /prontuarios afterwards lists the records by descending id:
  the created records first, the latest creation first, each with
  \<open>exames_solicitados\<close> decoded to the list of strings it was created with, followed
  by what the listing held before.
\<close>

theorem C5_create_then_list:
  fixes E :: engine and db :: database and bodies :: "jsval option list"
  defines "b \<equiv> next_id (prontuarios_seq db) (map p_id (prontuarios db))"
    and "n \<equiv> length bodies"
    and "db' \<equiv> snd (post_all E db bodies)"
  assumes valid: "list_all2 valid_creation bodies xss"
  shows "fst (post_all E db bodies) = map created [b ..< b + n]
       \<and> (\<forall>r\<in>set (prontuarios db). p_id r < b)
       \<and> map p_id (take n (get_prontuarios db')) = rev [b ..< b + n]
       \<and> map p_exames_solicitados (take n (get_prontuarios db')) =
           rev (map (\<lambda>xs. JArr (map JStr xs)) xss)
       \<and> drop n (get_prontuarios db') = get_prontuarios db
       \<and> sorted_wrt (\<lambda>x y. p_id y \<le> p_id x) (get_prontuarios db')"
proof -
  let ?new = "map2 (row_of_body E) [b ..< b + n] bodies"
  have desc: "sorted_wrt (\<lambda>x y. p_id y \<le> p_id x) (get_prontuarios db')"
    using sorted_order_desc[of p_id "prontuarios db'"]
    by (simp add: get_prontuarios_def sorted_wrt_map)
  have len: "length [b ..< b + n] = length bodies" by (simp add: n_def)
  have ids: "map p_id ?new = [b ..< b + n]" by (rule ids_of_new_rows[OF len])
  have rows: "prontuarios db' = prontuarios db @ ?new"
    using post_all_valid[OF valid, of E db] by (simp add: b_def n_def db'_def)
  have fresh: "\<forall>r\<in>set (prontuarios db). p_id r < b"
    by (auto simp: b_def intro: next_id_fresh)
  have inc: "sorted_wrt (\<lambda>x y. p_id x < p_id y) ?new"
    using ids sorted_wrt_map[of "(<)" p_id ?new] by (simp del: upt_Suc)
  have newer: "\<forall>x\<in>set (prontuarios db). \<forall>y\<in>set ?new. p_id x < p_id y"
  proof (intro ballI)
    fix x y
    assume x: "x \<in> set (prontuarios db)" and "y \<in> set ?new"
    then have "p_id y \<in> p_id ` set ?new" by (intro imageI)
    then have "p_id y \<in> set (map p_id ?new)" by (simp only: set_map)
    then have "b \<le> p_id y" unfolding ids by simp
    with fresh x show "p_id x < p_id y" by auto
  qed
  have listing: "get_prontuarios db' = rev (map decode_row ?new) @ get_prontuarios db"
    by (simp add: get_prontuarios_def rows order_desc_append_newer[OF inc newer] rev_map del: upt_Suc)
  have lnew: "length (rev (map decode_row ?new)) = n" by (simp add: n_def)
  have tk: "take n (get_prontuarios db') = rev (map decode_row ?new)"
    unfolding listing using lnew by simp
  have dr: "drop n (get_prontuarios db') = get_prontuarios db"
    unfolding listing using lnew by simp
  have tk_ids: "map p_id (take n (get_prontuarios db')) = rev [b ..< b + n]"
    unfolding tk using ids by (simp add: rev_map[symmetric] comp_def del: upt_Suc)
  have tk_ex: "map p_exames_solicitados (take n (get_prontuarios db')) =
           rev (map (\<lambda>xs. JArr (map JStr xs)) xss)"
    unfolding tk using exames_of_new_rows[OF valid len, of E]
    by (simp add: rev_map[symmetric] comp_def del: upt_Suc)
  from post_all_valid[OF valid, of E db] fresh tk_ids tk_ex dr desc
  show ?thesis by (simp add: b_def n_def del: upt_Suc)
qed

theorem C5_create_then_list_witness:
  "fst (post_all plain_engine empty_db [ana_body, rui_body]) = [created 1, created 2]
   \<and> map p_id (get_prontuarios (snd (post_all plain_engine empty_db [ana_body, rui_body]))) = [2, 1]
   \<and> map p_exames_solicitados
        (get_prontuarios (snd (post_all plain_engine empty_db [ana_body, rui_body]))) =
       [JArr [JStr [34, 92, 10]],
        JArr [JStr (lit ''Hemograma''), JStr [82, 88, 32, 116, 243, 114, 97, 120]]]"
proof -
  have v: "list_all2 valid_creation [ana_body, rui_body]
             [[lit ''Hemograma'', [82, 88, 32, 116, 243, 114, 97, 120]], [[34, 92, 10]]]"
    by (simp add: valid_creation_def campos_faltando_def ana_body_def rui_body_def body_field_def
        get_prop_def truthy_opt_def lit_def)
  have b: "next_id (prontuarios_seq empty_db) (map p_id (prontuarios empty_db)) = 1"
    by (simp add: next_id_def empty_db_def)
  have e: "get_prontuarios empty_db = []"
    by (simp add: get_prontuarios_def empty_db_def order_desc_def)
  have u: "[1 ..< 1 + 2] = [1, 2::nat]"
    by (simp add: upt_conv_Cons)
  have len: "length [ana_body, rui_body] = 2" by simp
  let ?G = "get_prontuarios (snd (post_all plain_engine empty_db [ana_body, rui_body]))"
  note c = C5_create_then_list[OF v, of plain_engine empty_db, unfolded b e len u]
  have t: "take 2 ?G = ?G"
    using append_take_drop_id[of 2 ?G]
      c[THEN conjunct2, THEN conjunct2, THEN conjunct2, THEN conjunct2, THEN conjunct1]
    by (simp only: append_Nil2)
  have r: "fst (post_all plain_engine empty_db [ana_body, rui_body]) = [created 1, created 2]"
    using c[THEN conjunct1] by (simp only: list.map)
  have i: "map p_id ?G = [2, 1]"
    using c[THEN conjunct2, THEN conjunct2, THEN conjunct1] unfolding t
    by (simp only: rev.simps append.simps)
  have x: "map p_exames_solicitados ?G =
       [JArr [JStr [34, 92, 10]],
        JArr [JStr (lit ''Hemograma''), JStr [82, 88, 32, 116, 243, 114, 97, 120]]]"
    using c[THEN conjunct2, THEN conjunct2, THEN conjunct2, THEN conjunct1] unfolding t
    by (simp only: rev.simps append.simps list.map)
  from r i x show ?thesis by (intro conjI)
qed

section \<open>Updating and deleting records\<close>

lemma examesStr_not_array: "\<not> is_array v \<Longrightarrow> examesStr v = lit ''[]''"
  by (cases v) (simp_all add: examesStr_def is_array_def)

lemma row_of_body_not_array:
  "body_field body (lit ''exames_solicitados'') = Some v \<Longrightarrow> \<not> is_array v \<Longrightarrow>
   p_exames_solicitados (row_of_body E k body) = lit ''[]''"
  by (simp add: row_of_body_def default_to_def examesStr_not_array)

text \<open>
  C6. When the required fields are there and \<open>exames_solicitados\<close> is present
  without being an array, POST /prontuario answers 201 and the row it adds holds the
  text \<open>[]\<close> for the field; PUT /prontuario/:id on an id that is stored answers 200,
  every row it matched holds \<open>[]\<close> afterwards and the other rows are as they were.
\<close>

theorem C6_non_array_exames:
  assumes "\<not> campos_faltando body"
    and "body_field body (lit ''exames_solicitados'') = Some v"
    and "\<not> is_array v"
  shows "status_of (fst (post_prontuario E db body)) = 201
       \<and> prontuarios (snd (post_prontuario E db body)) =
           prontuarios db
           @ [row_of_body E (next_id (prontuarios_seq db) (map p_id (prontuarios db))) body]
       \<and> p_exames_solicitados
           (row_of_body E (next_id (prontuarios_seq db) (map p_id (prontuarios db))) body) = lit ''[]''
       \<and> (ident \<noteq> [] \<and> filter (matches E ident) (prontuarios db) \<noteq> [] \<longrightarrow>
            status_of (fst (put_prontuario E db ident body)) = 200
            \<and> map p_id (prontuarios (snd (put_prontuario E db ident body))) = map p_id (prontuarios db)
            \<and> (\<forall>r\<in>set (prontuarios (snd (put_prontuario E db ident body))).
                  if matches E ident r then p_exames_solicitados r = lit ''[]''
                  else r \<in> set (prontuarios db)))"
proof (intro conjI impI)
  show "status_of (fst (post_prontuario E db body)) = 201"
    using assms(1) by (simp add: post_prontuario_def Let_def)
  show "prontuarios (snd (post_prontuario E db body)) =
           prontuarios db
           @ [row_of_body E (next_id (prontuarios_seq db) (map p_id (prontuarios db))) body]"
    using assms(1) by (simp add: post_prontuario_def Let_def)
  show "p_exames_solicitados
           (row_of_body E (next_id (prontuarios_seq db) (map p_id (prontuarios db))) body) = lit ''[]''"
    by (rule row_of_body_not_array[OF assms(2,3)])
next
  assume a: "ident \<noteq> [] \<and> filter (matches E ident) (prontuarios db) \<noteq> []"
  have rows: "prontuarios (snd (put_prontuario E db ident body)) =
      map (\<lambda>r. if matches E ident r then row_of_body E (p_id r) body else r) (prontuarios db)"
    using a assms(1) by (simp add: put_prontuario_def)
  show "status_of (fst (put_prontuario E db ident body)) = 200"
    using a assms(1) by (simp add: put_prontuario_def)
  show "map p_id (prontuarios (snd (put_prontuario E db ident body))) = map p_id (prontuarios db)"
    unfolding rows by (induction "prontuarios db") simp_all
  show "\<forall>r\<in>set (prontuarios (snd (put_prontuario E db ident body))).
          if matches E ident r then p_exames_solicitados r = lit ''[]''
          else r \<in> set (prontuarios db)"
    unfolding rows
    by (auto simp: matches_def row_of_body_not_array[OF assms(2,3)])
qed

theorem C6_non_array_exames_witness:
  \<open>status_of (fst (post_prontuario plain_engine empty_db text_exames_body)) = 201
   \<and> map p_exames_solicitados (prontuarios (snd (post_prontuario plain_engine empty_db text_exames_body)))
       = [lit ''[]'']
   \<and> map p_exames_solicitados (prontuarios one_record_db) = [lit ''["Hemograma"]'']
   \<and> status_of (fst (put_prontuario plain_engine one_record_db (lit ''1'') text_exames_body)) = 200
   \<and> map p_exames_solicitados
        (prontuarios (snd (put_prontuario plain_engine one_record_db (lit ''1'') text_exames_body)))
       = [lit ''[]'']\<close>
proof -
  have f: "body_field text_exames_body (lit ''exames_solicitados'') = Some (JStr (lit ''Hemograma''))"
    "\<not> campos_faltando text_exames_body"
    by (simp_all add: text_exames_body_def campos_faltando_def body_field_def get_prop_def
        truthy_opt_def lit_def)
  have n: "\<not> is_array (JStr (lit ''Hemograma''))" by (simp add: is_array_def)
  have one: "lit ''1'' \<noteq> []" by (simp add: lit_def)
  have mm: "\<And>r. matches plain_engine (lit ''1'') r = (p_id r = 1)"
    by (auto simp: matches_def plain_engine_def read_decimal_def is_digit_def lit_def)
  have m: "lit ''1'' \<noteq> [] \<and> filter (matches plain_engine (lit ''1'')) (prontuarios one_record_db) \<noteq> []"
    by (simp add: one mm one_record_db_def)
  have p: "prontuarios empty_db = []" by (simp add: empty_db_def)
  have before: \<open>map p_exames_solicitados (prontuarios one_record_db) = [lit ''["Hemograma"]'']\<close>
    by (simp add: one_record_db_def)
  have q: "prontuarios (snd (put_prontuario plain_engine one_record_db (lit ''1'') text_exames_body)) =
      [row_of_body plain_engine 1 text_exames_body]"
    by (simp add: put_prontuario_def f(2) one mm one_record_db_def)
  note c = C6_non_array_exames[OF f(2) f(1) n, of plain_engine]
  from c[of empty_db "lit ''1''"] c[of one_record_db "lit ''1''"] m
  show ?thesis by (simp add: p q before row_of_body_not_array[OF f(1) n])
qed

text \<open>
  C7. For an id that no stored record has, PUT /prontuario/:id with the required
  fields and DELETE /prontuario/:id answer 404, and records and exams are as before.
\<close>

theorem C7_absent_id_404:
  assumes "ident \<noteq> []"
    and "\<forall>r\<in>set (prontuarios db). \<not> matches E ident r"
  shows "(\<not> campos_faltando body \<longrightarrow>
            put_prontuario E db ident body = (Send 404 prontuario_nao_encontrado, db))
       \<and> delete_prontuario E db ident = (Send 404 prontuario_nao_encontrado, db)"
proof -
  have "filter (matches E ident) (prontuarios db) = []"
    using assms(2) by (simp add: filter_empty_conv)
  with assms(1) show ?thesis
    by (simp add: put_prontuario_def delete_prontuario_def)
qed

theorem C7_absent_id_404_witness:
  "put_prontuario plain_engine two_exams_db (lit ''7'') text_exames_body =
     (Send 404 prontuario_nao_encontrado, two_exams_db)
   \<and> delete_prontuario plain_engine two_exams_db (lit ''7'') =
     (Send 404 prontuario_nao_encontrado, two_exams_db)"
proof -
  have a: "lit ''7'' \<noteq> []" by (simp add: lit_def)
  have b: "\<forall>r\<in>set (prontuarios two_exams_db). \<not> matches plain_engine (lit ''7'') r"
    by (simp add: matches_def plain_engine_def read_decimal_def is_digit_def two_exams_db_def lit_def)
  have c: "\<not> campos_faltando text_exames_body"
    by (simp add: text_exames_body_def campos_faltando_def body_field_def get_prop_def
        truthy_opt_def lit_def)
  from C7_absent_id_404[OF a b, of text_exames_body] c show ?thesis by simp
qed

section \<open>Attaching exams\<close>

text \<open>
  C8. POST /exames/upload without a file answers 400, POST /exames/texto whose
  \<open>resultado_texto\<close> is absent or empty after trimming answers 400, both answer 400
  when \<open>prontuario_id\<close> is missing (or falsy), and in each case the store is as
  before.
\<close>

theorem C8_exam_input_400:
  "(\<not> truthy_opt (body_field body (lit ''prontuario_id'')) \<or> originalname = None \<longrightarrow>
      status_of (fst (exames_upload E db now ts body originalname)) = 400
      \<and> snd (exames_upload E db now ts body originalname) = db)
   \<and> (\<not> truthy_opt (body_field body (lit ''prontuario_id''))
        \<or> absent_or_blank (body_field body (lit ''resultado_texto'')) \<longrightarrow>
      status_of (fst (exames_texto E db now body)) = 400
      \<and> snd (exames_texto E db now body) = db)"
proof (intro conjI impI)
  assume "\<not> truthy_opt (body_field body (lit ''prontuario_id'')) \<or> originalname = None"
  then show "status_of (fst (exames_upload E db now ts body originalname)) = 400"
    and "snd (exames_upload E db now ts body originalname) = db"
    by (auto simp: exames_upload_def)
next
  assume a: "\<not> truthy_opt (body_field body (lit ''prontuario_id''))
        \<or> absent_or_blank (body_field body (lit ''resultado_texto''))"
  have "absent_or_blank (body_field body (lit ''resultado_texto'')) \<Longrightarrow>
      \<exists>s. default_to (JStr []) (body_field body (lit ''resultado_texto'')) = JStr s \<and> trim s = []"
    by (auto simp: absent_or_blank_def default_to_def trim_empty_iff
        split: option.splits jsval.splits)
  with a show "status_of (fst (exames_texto E db now body)) = 400"
    and "snd (exames_texto E db now body) = db"
    by (auto simp: exames_texto_def)
qed

theorem C8_exam_input_400_witness:
  "status_of (fst (exames_upload plain_engine two_exams_db (lit ''2024-01-04 08:00:00'') 1704355200000
      (Some (JObj [(lit ''prontuario_id'', JStr (lit ''1''))])) None)) = 400
   \<and> snd (exames_upload plain_engine two_exams_db (lit ''2024-01-04 08:00:00'') 1704355200000
      (Some (JObj [(lit ''prontuario_id'', JStr (lit ''1''))])) None) = two_exams_db
   \<and> status_of (fst (exames_upload plain_engine two_exams_db (lit ''2024-01-04 08:00:00'') 1704355200000
      (Some (JObj [])) (Some (lit ''rx.png'')))) = 400
   \<and> status_of (fst (exames_texto plain_engine two_exams_db (lit ''2024-01-04 08:00:00'')
      (Some (JObj [(lit ''prontuario_id'', JStr (lit ''1'')), (lit ''resultado_texto'', JStr [32, 9])])))) = 400
   \<and> snd (exames_texto plain_engine two_exams_db (lit ''2024-01-04 08:00:00'')
      (Some (JObj [(lit ''prontuario_id'', JStr (lit ''1'')), (lit ''resultado_texto'', JStr [32, 9])])))
      = two_exams_db
   \<and> status_of (fst (exames_texto plain_engine two_exams_db (lit ''2024-01-04 08:00:00'')
      (Some (JObj [(lit ''resultado_texto'', JStr (lit ''ok''))])))) = 400"
proof -
  have a: "\<not> truthy_opt (body_field (Some (JObj [])) (lit ''prontuario_id''))"
    "\<not> truthy_opt (body_field (Some (JObj [(lit ''resultado_texto'', JStr (lit ''ok''))])) (lit ''prontuario_id''))"
    "absent_or_blank (body_field (Some (JObj [(lit ''prontuario_id'', JStr (lit ''1'')), (lit ''resultado_texto'', JStr [32, 9])])) (lit ''resultado_texto''))"
    by (simp_all add: truthy_opt_def absent_or_blank_def body_field_def get_prop_def lit_def is_space_def)
  show ?thesis
    using C8_exam_input_400[of "Some (JObj [(lit ''prontuario_id'', JStr (lit ''1''))])" None
        plain_engine two_exams_db "lit ''2024-01-04 08:00:00''" 1704355200000]
      C8_exam_input_400[of "Some (JObj [])" "Some (lit ''rx.png'')"
        plain_engine two_exams_db "lit ''2024-01-04 08:00:00''" 1704355200000]
      C8_exam_input_400[of "Some (JObj [(lit ''prontuario_id'', JStr (lit ''1'')), (lit ''resultado_texto'', JStr [32, 9])])" None
        plain_engine two_exams_db "lit ''2024-01-04 08:00:00''" 0]
      C8_exam_input_400[of "Some (JObj [(lit ''resultado_texto'', JStr (lit ''ok''))])" None
        plain_engine two_exams_db "lit ''2024-01-04 08:00:00''" 0]
      a
    by blast
qed

section \<open>The stored file reference\<close>

lemma runs_Cons:
  "\<exists>r rs. runs P (c # cs) = (c # r) # rs"
  by (cases "runs P cs") auto

lemma concat_runs: "concat (runs P s) = s"
  by (induction s) (auto split: list.splits)

lemma runs_uniform:
  "\<forall>r\<in>set (runs P s). r \<noteq> [] \<and> (list_all P r \<or> list_all (\<lambda>c. \<not> P c) r)"
proof (induction s)
  case Nil
  show ?case by simp
next
  case (Cons c cs)
  show ?case
  proof (cases "runs P cs")
    case Nil
    then show ?thesis by simp
  next
    case rest: (Cons q qs)
    from Cons.IH rest have q: "q \<noteq> []" "list_all P q \<or> list_all (\<lambda>c. \<not> P c) q"
      and qs: "\<forall>r\<in>set qs. r \<noteq> [] \<and> (list_all P r \<or> list_all (\<lambda>c. \<not> P c) r)"
      by simp_all
    from q have hdq: "list_all P q \<longleftrightarrow> P (hd q)" "list_all (\<lambda>c. \<not> P c) q \<longleftrightarrow> \<not> P (hd q)"
      by (cases q; auto)+
    show ?thesis
    proof (cases "P c = P (hd q)")
      case True
      then have "list_all P (c # q) \<or> list_all (\<lambda>c. \<not> P c) (c # q)"
        using q(2) hdq by auto
      with True qs rest show ?thesis by simp
    next
      case False
      with q qs rest show ?thesis by simp
    qed
  qed
qed

lemma runs_maximal: "successively (\<lambda>a b. P (hd a) \<noteq> P (hd b)) (runs P s)"
proof (induction s)
  case Nil
  show ?case by simp
next
  case (Cons c cs)
  show ?case
  proof (cases "runs P cs")
    case Nil
    then show ?thesis by simp
  next
    case (Cons r rs)
    with Cons.IH show ?thesis by (cases rs) auto
  qed
qed

lemma replace_runs_Nil: "replace_runs [] = []"
  by (simp add: replace_runs_def)

lemma replace_runs_safe: "safe_char c \<Longrightarrow> replace_runs (c # cs) = c # replace_runs cs"
  by (cases "runs safe_char cs") (auto simp: replace_runs_def)

lemma replace_runs_unsafe_safe:
  assumes "\<not> safe_char c" and "safe_char d"
  shows "replace_runs (c # d # ds) = 95 # replace_runs (d # ds)"
proof -
  obtain r rs where "runs safe_char (d # ds) = (d # r) # rs" using runs_Cons by blast
  with assms show ?thesis by (simp add: replace_runs_def)
qed

lemma replace_runs_unsafe_unsafe:
  assumes "\<not> safe_char c" and "\<not> safe_char d"
  shows "replace_runs (c # d # ds) = replace_runs (d # ds)"
proof -
  obtain r rs where "runs safe_char (d # ds) = (d # r) # rs" using runs_Cons by blast
  with assms show ?thesis by (simp add: replace_runs_def)
qed

lemma replace_runs_unsafe:
  "\<not> safe_char c \<Longrightarrow> replace_runs (c # cs) = 95 # replace_runs (dropWhile (\<lambda>x. \<not> safe_char x) cs)"
proof (induction cs arbitrary: c)
  case Nil
  then show ?case by (simp add: replace_runs_def)
next
  case (Cons d ds)
  show ?case
  proof (cases "safe_char d")
    case True
    with Cons.prems show ?thesis by (simp add: replace_runs_unsafe_safe)
  next
    case False
    with Cons.prems Cons.IH[of d] show ?thesis by (simp add: replace_runs_unsafe_unsafe)
  qed
qed

lemma sanitize_replace_runs: "sanitize name = replace_runs name"
  by (induction name rule: sanitize.induct)
    (simp_all add: replace_runs_Nil replace_runs_safe replace_runs_unsafe)

lemma safe_sanitize: "list_all safe_char (sanitize name)"
  by (induction name rule: sanitize.induct) (simp_all add: safe_char_def)

lemma decimal_digits: "decimal n \<noteq> [] \<and> list_all is_digit (decimal n)"
proof (induction n rule: decimal.induct)
  case (1 n)
  show ?case
  proof (cases "n < 10")
    case True
    then show ?thesis by (subst (1 2) decimal.simps) (simp add: is_digit_def)
  next
    case False
    have "n mod 10 < 10" by simp
    then have "is_digit (48 + n mod 10)" unfolding is_digit_def by linarith
    with False 1 show ?thesis by (subst (1 2) decimal.simps) simp
  qed
qed

lemma digit_safe: "is_digit c \<Longrightarrow> safe_char c"
  by (simp add: is_digit_def safe_char_def)

lemma safe_storage_filename: "list_all safe_char (storage_filename ts name)"
proof -
  have "list_all safe_char (decimal ts)"
    using decimal_digits[of ts] by (auto simp: list_all_iff digit_safe)
  moreover have "list_all safe_char (lit ''__'')" by (simp add: lit_def safe_char_def)
  ultimately show ?thesis by (simp add: storage_filename_def safe_sanitize)
qed

lemma storage_filename_starts_with_digit:
  "storage_filename ts name \<noteq> [] \<and> is_digit (hd (storage_filename ts name))"
  using decimal_digits[of ts] by (cases "decimal ts") (simp_all add: storage_filename_def)


lemma upload_adds_at_most_one:
  "exames (snd (exames_upload E db now ts body originalname)) = exames db
   \<or> (\<exists>name row. originalname = Some name
         \<and> exames (snd (exames_upload E db now ts body originalname)) = exames db @ [row]
         \<and> e_arquivo_path row = Some (lit ''/uploads/'' @ storage_filename ts name))"
  by (cases originalname)
    (auto simp: exames_upload_def insert_exame_def Let_def split: option.splits)

text \<open>
  C9. POST /exames/upload leaves the exams as they are or adds one row, whose file
  reference is \<open>/uploads/\<close>, the upload time in decimal, two underscores and the
  original name with every maximal run of code units outside word characters, dots
  and hyphens replaced by one underscore. What follows \<open>/uploads/\<close> consists of
  word characters, dots and hyphens only: it holds no slash and no backslash, and it
  starts with a digit, so it is neither \<open>.\<close> nor \<open>..\<close>.
\<close>

theorem C9_stored_file_reference:
  "(exames (snd (exames_upload E db now ts body originalname)) = exames db
     \<or> (\<exists>name row. originalname = Some name
           \<and> exames (snd (exames_upload E db now ts body originalname)) = exames db @ [row]
           \<and> e_arquivo_path row = Some (lit ''/uploads/'' @ storage_filename ts name)))
   \<and> storage_filename ts name = decimal ts @ lit ''__'' @ replace_runs name
   \<and> concat (runs safe_char name) = name
   \<and> (\<forall>r\<in>set (runs safe_char name).
         r \<noteq> [] \<and> (list_all safe_char r \<or> list_all (\<lambda>c. \<not> safe_char c) r))
   \<and> successively (\<lambda>a b. safe_char (hd a) \<noteq> safe_char (hd b)) (runs safe_char name)
   \<and> list_all safe_char (storage_filename ts name)
   \<and> 47 \<notin> set (storage_filename ts name) \<and> 92 \<notin> set (storage_filename ts name)
   \<and> storage_filename ts name \<noteq> lit ''.'' \<and> storage_filename ts name \<noteq> lit ''..''"
proof -
  have safe: "\<forall>c\<in>set (storage_filename ts name). safe_char c"
    using safe_storage_filename[of ts name] by (simp add: list_all_iff)
  have sep: "\<not> safe_char 47" "\<not> safe_char 92" by (simp_all add: safe_char_def)
  have dots: "\<not> is_digit (hd (lit ''.''))" "\<not> is_digit (hd (lit ''..''))"
    by (simp_all add: lit_def is_digit_def)
  from safe sep have "47 \<notin> set (storage_filename ts name)" "92 \<notin> set (storage_filename ts name)"
    by blast+
  moreover from dots storage_filename_starts_with_digit[of ts name]
  have "storage_filename ts name \<noteq> lit ''.''" "storage_filename ts name \<noteq> lit ''..''"
    by metis+
  moreover have "storage_filename ts name = decimal ts @ lit ''__'' @ replace_runs name"
    by (simp only: storage_filename_def sanitize_replace_runs)
  ultimately show ?thesis
    using upload_adds_at_most_one[of E db now ts body originalname] concat_runs[of safe_char name]
      runs_uniform[of safe_char name] runs_maximal[of safe_char name] safe_storage_filename[of ts name]
    by blast
qed

lemma decimal_small: "n < 10 \<Longrightarrow> decimal n = [48 + n]"
  by (subst decimal.simps) simp

lemma decimal_large: "10 \<le> n \<Longrightarrow> decimal n = decimal (n div 10) @ [48 + n mod 10]"
  by (subst decimal.simps) simp

lemma decimal_example: "decimal 1704355200000 = lit ''1704355200000''"
  by (simp add: decimal_small decimal_large lit_def)

lemma runs_example:
  "runs safe_char (lit ''../rx  1.png'') = [lit ''..'', lit ''/'', lit ''rx'', lit ''  '', lit ''1.png'']"
  by (simp add: lit_def safe_char_def)

theorem C9_stored_file_reference_witness:
  "storage_filename 1704355200000 (lit ''../rx  1.png'') = lit ''1704355200000__.._rx_1.png''
   \<and> list_all (\<lambda>c. \<not> safe_char c) (lit ''  '')
   \<and> map e_arquivo_path
        (exames (snd (exames_upload plain_engine two_exams_db (lit ''2024-01-04 08:00:00'') 1704355200000
           (Some (JObj [(lit ''prontuario_id'', JStr (lit ''1''))])) (Some (lit ''../rx  1.png'')))))
       = [None, Some (lit ''/uploads/1__a.png''), Some (lit ''/uploads/1704355200000__.._rx_1.png'')]"
proof -
  note c = C9_stored_file_reference[of plain_engine two_exams_db "lit ''2024-01-04 08:00:00''"
      1704355200000 "Some (JObj [(lit ''prontuario_id'', JStr (lit ''1''))])"
      "Some (lit ''../rx  1.png'')" "lit ''../rx  1.png''"]
  have rr: "replace_runs (lit ''../rx  1.png'') = lit ''.._rx_1.png''"
    unfolding replace_runs_def runs_example by (simp add: lit_def safe_char_def)
  have name: "storage_filename 1704355200000 (lit ''../rx  1.png'') = lit ''1704355200000__.._rx_1.png''"
    using c[THEN conjunct2, THEN conjunct1] unfolding decimal_example rr by (simp add: lit_def)
  have "lit ''  '' \<in> set (runs safe_char (lit ''../rx  1.png''))"
    unfolding runs_example by simp
  with c[THEN conjunct2, THEN conjunct2, THEN conjunct2, THEN conjunct1]
  have "list_all safe_char (lit ''  '') \<or> list_all (\<lambda>c. \<not> safe_char c) (lit ''  '')"
    by blast
  moreover have "\<not> list_all safe_char (lit ''  '')" by (simp add: lit_def safe_char_def)
  ultimately have run: "list_all (\<lambda>c. \<not> safe_char c) (lit ''  '')" by blast
  have f: "body_field (Some (JObj [(lit ''prontuario_id'', JStr (lit ''1''))])) (lit ''prontuario_id'')
             = Some (JStr (lit ''1''))"
    by (simp add: body_field_def get_prop_def)
  have t: "truthy_opt (Some (JStr (lit ''1'')))" by (simp add: truthy_opt_def lit_def)
  have k: "integer_of plain_engine (JStr (lit ''1'')) = Some 1"
    by (simp add: plain_engine_def read_decimal_def is_digit_def lit_def)
  have up: "map e_arquivo_path
        (exames (snd (exames_upload plain_engine two_exams_db (lit ''2024-01-04 08:00:00'') 1704355200000
           (Some (JObj [(lit ''prontuario_id'', JStr (lit ''1''))])) (Some (lit ''../rx  1.png'')))))
       = [None, Some (lit ''/uploads/1__a.png''),
          Some (lit ''/uploads/'' @ storage_filename 1704355200000 (lit ''../rx  1.png''))]"
    by (simp add: exames_upload_def f t k insert_exame_def default_to_def Let_def two_exams_db_def)
  from name run up show ?thesis by (simp add: lit_def)
qed

end
